theory Spec2Isabelle
  imports Complex_Main "HOL-Library.Char_ord" "HOL-Library.List_Lexorder" "HOL-Library.Multiset"
begin

section \<open>Values of the host language\<close>

text \<open>
  A JavaScript \<^verbatim>\<open>number\<close> is \<open>NaN\<close>, one of the two infinities, or a finite binary64
  value. A finite value is kept as the rational it denotes; the conversions that produce
  numbers (\<open>round64\<close> below) return only rationals that are binary64 values, and a
  statement proved for all of \<open>Fin q\<close> holds for all finite numbers of the program.
  Negative zero is identified with zero; nothing in the program tells them apart.
\<close>

datatype jsnum = NaN | PosInf | NegInf | Fin rat

definition isFinite :: "jsnum \<Rightarrow> bool" where
  "isFinite x = (case x of Fin _ \<Rightarrow> True | _ \<Rightarrow> False)"

subsection \<open>String helpers\<close>

definition startsWith :: "string \<Rightarrow> string \<Rightarrow> bool" where
  "startsWith s p = (take (length p) s = p)"

text \<open>\<^verbatim>\<open>s.includes(p)\<close>: \<open>p\<close> occurs in \<open>s\<close> as a contiguous substring.\<close>

fun includesStr :: "string \<Rightarrow> string \<Rightarrow> bool" where
  "includesStr [] p = (p = [])"
| "includesStr (c # cs) p = (startsWith (c # cs) p \<or> includesStr cs p)"

text \<open>\<^verbatim>\<open>xs.join(sep)\<close> on an array of strings.\<close>

fun join :: "string \<Rightarrow> string list \<Rightarrow> string" where
  "join sep [] = []"
| "join sep [x] = x"
| "join sep (x # y # ys) = x @ sep @ join sep (y # ys)"

definition isDigit :: "char \<Rightarrow> bool" where
  "isDigit c = (c \<in> set ''0123456789'')"

definition digitChar :: "int \<Rightarrow> char" where
  "digitChar d = ''0123456789'' ! nat (d mod 10)"

text \<open>The value of a digit: its position in the row of the ten digits.\<close>

definition digitVal :: "char \<Rightarrow> int" where
  "digitVal c = (if isDigit c then int (length (takeWhile (\<lambda>d. d \<noteq> c) ''0123456789'')) else 0)"

text \<open>
  The decimal digits of an integer that is not negative, most significant first; \<open>0\<close>
  is \<open>''0''\<close>.
\<close>

function decimal :: "int \<Rightarrow> string" where
  "decimal n = (if n < 10 then [digitChar n] else decimal (n div 10) @ [digitChar (n mod 10)])"
  by pat_completeness auto
termination
  by (relation "measure nat") auto

declare decimal.simps [simp del]

text \<open>The value of a string of decimal digits, read left to right.\<close>

definition digitsVal :: "string \<Rightarrow> int" where
  "digitsVal ds = foldl (\<lambda>acc c. 10 * acc + digitVal c) 0 ds"

subsection \<open>Rounding to binary64\<close>

text \<open>
  The number value of a real: the binary64 value nearest to it, the one with the even
  significand when two are equally near, an infinity when the magnitude rounds to
  \<open>2^1024\<close>. With \<open>e\<close> the exponent of the magnitude (at least \<open>-1022\<close>, where the
  subnormal numbers begin), the binary64 values around it are the multiples of
  \<open>2^(e - 52)\<close>; the magnitude rounds to \<open>n\<close> of them with \<open>n\<close> at most \<open>2^53\<close>, which
  reaches \<open>2^1024\<close> exactly when \<open>e\<close> is 1023 and \<open>n\<close> is \<open>2^53\<close>.
\<close>

definition pow2 :: "int \<Rightarrow> rat" where
  "pow2 e = (if 0 \<le> e then 2 ^ nat e else 1 / 2 ^ nat (- e))"

text \<open>The number of binary digits of a positive integer.\<close>

function bitLength :: "int \<Rightarrow> int" where
  "bitLength n = (if n \<le> 0 then 0 else 1 + bitLength (n div 2))"
  by pat_completeness auto
termination
  by (relation "measure nat") auto

declare bitLength.simps [simp del]

text \<open>The exponent \<open>e\<close> with \<open>2^e \<le> a < 2^(e + 1)\<close>, for a positive \<open>a\<close>.\<close>

definition floorLog2 :: "rat \<Rightarrow> int" where
  "floorLog2 a =
     (let (p, q) = quotient_of a;
          d = bitLength p - bitLength q
      in if pow2 d \<le> a then d else d - 1)"

definition roundHalfEven :: "rat \<Rightarrow> int" where
  "roundHalfEven r =
     (let f = \<lfloor>r\<rfloor>; d = r - of_int f
      in if d < 1 / 2 then f else if 1 / 2 < d then f + 1 else if even f then f else f + 1)"

definition round64 :: "rat \<Rightarrow> jsnum" where
  "round64 q =
     (if q = 0 then Fin 0
      else
        let a = \<bar>q\<bar>;
            e = max (floorLog2 a) (- 1022);
            u = pow2 (e - 52);
            n = roundHalfEven (a / u);
            r = of_int n * u
        in if 1024 \<le> e \<or> (e = 1023 \<and> n = 2 ^ 53) then (if q < 0 then NegInf else PosInf)
           else Fin (if q < 0 then - r else r))"

subsection \<open>\<^verbatim>\<open>parseFloat\<close>\<close>

text \<open>
  The built-in \<^verbatim>\<open>parseFloat\<close>: leading white space is dropped, then the longest prefix
  that is a decimal literal (optional sign, then \<^verbatim>\<open>Infinity\<close> or digits with an optional
  fraction and an optional exponent) is read; if there is none the result is \<open>NaN\<close>,
  otherwise it is the number value of the literal. Strings are byte strings here, so
  only the white space of ASCII is recognised.
\<close>

definition isWhite :: "char \<Rightarrow> bool" where
  "isWhite c = (c \<in> {CHR 0x09, CHR 0x0A, CHR 0x0B, CHR 0x0C, CHR 0x0D, CHR '' ''})"

text \<open>The exponent part \<^verbatim>\<open>e\<close>/\<^verbatim>\<open>E\<close>, optional sign, at least one digit; \<open>0\<close> when absent.\<close>

definition exponentPart :: "string \<Rightarrow> int" where
  "exponentPart s =
     (case s of
        [] \<Rightarrow> 0
      | c # r \<Rightarrow>
          if c = CHR ''e'' \<or> c = CHR ''E'' then
            (case r of
               [] \<Rightarrow> 0
             | d # r' \<Rightarrow>
                 if d = CHR ''-'' then
                   (if takeWhile isDigit r' = [] then 0 else - digitsVal (takeWhile isDigit r'))
                 else if d = CHR ''+'' then digitsVal (takeWhile isDigit r')
                 else digitsVal (takeWhile isDigit r))
          else 0)"

definition scale10 :: "rat \<Rightarrow> int \<Rightarrow> rat" where
  "scale10 q e = (if 0 \<le> e then q * 10 ^ nat e else q / 10 ^ nat (- e))"

definition parseUnsigned :: "string \<Rightarrow> rat option" where
  "parseUnsigned u =
     (let ip = takeWhile isDigit u;
          r1 = dropWhile isDigit u;
          fp = (case r1 of [] \<Rightarrow> [] | c # r \<Rightarrow> if c = CHR ''.'' then takeWhile isDigit r else []);
          r2 = (case r1 of [] \<Rightarrow> [] | c # r \<Rightarrow> if c = CHR ''.'' then dropWhile isDigit r else r1)
      in if ip = [] \<and> fp = [] then None
         else Some (scale10 (of_int (digitsVal ip) + of_int (digitsVal fp) / 10 ^ length fp)
                      (exponentPart r2)))"

definition parseFloat :: "string \<Rightarrow> jsnum" where
  "parseFloat s =
     (let t = dropWhile isWhite s;
          neg = (case t of [] \<Rightarrow> False | c # _ \<Rightarrow> c = CHR ''-'');
          u = (case t of [] \<Rightarrow> [] | c # r \<Rightarrow> if c = CHR ''-'' \<or> c = CHR ''+'' then r else t)
      in if startsWith u ''Infinity'' then (if neg then NegInf else PosInf)
         else (case parseUnsigned u of
                 None \<Rightarrow> NaN
               | Some q \<Rightarrow> round64 (if neg then - q else q)))"

subsection \<open>The number control of the form\<close>

text \<open>
  A valid floating-point number in the sense of HTML: an optional minus sign, then
  digits, or a point and digits, or both, then optionally an exponent (\<^verbatim>\<open>e\<close> or
  \<^verbatim>\<open>E\<close>, an optional sign, digits).
\<close>

definition validExponent :: "string \<Rightarrow> bool" where
  "validExponent s =
     (case s of
        [] \<Rightarrow> True
      | c # r \<Rightarrow>
          (c = CHR ''e'' \<or> c = CHR ''E'')
          \<and> (let ds = (case r of
                          [] \<Rightarrow> []
                        | d # r' \<Rightarrow> if d = CHR ''-'' \<or> d = CHR ''+'' then r' else r)
             in ds \<noteq> [] \<and> list_all isDigit ds))"

definition validFloatingPointNumber :: "string \<Rightarrow> bool" where
  "validFloatingPointNumber s =
     (let u = (case s of [] \<Rightarrow> [] | c # r \<Rightarrow> if c = CHR ''-'' then r else s);
          ip = takeWhile isDigit u;
          r1 = dropWhile isDigit u
      in (case r1 of
            [] \<Rightarrow> ip \<noteq> []
          | c # r \<Rightarrow>
              if c = CHR ''.''
              then takeWhile isDigit r \<noteq> [] \<and> validExponent (dropWhile isDigit r)
              else ip \<noteq> [] \<and> validExponent r1))"

text \<open>
  The value that \<^verbatim>\<open><input type="number">\<close> holds, and hands to \<^verbatim>\<open>onChange\<close> as
  \<^verbatim>\<open>e.target.value\<close>, after the user has typed \<open>text\<close>: the text itself when it is a
  valid floating-point number that converts to a finite number, the empty string
  otherwise. (On a valid floating-point number the conversion of the control and
  \<^verbatim>\<open>parseFloat\<close> read the same literal.)
\<close>

definition numberInputValue :: "string \<Rightarrow> string" where
  "numberInputValue text =
     (if validFloatingPointNumber text \<and> isFinite (parseFloat text) then text else [])"

section \<open>Data model\<close>

text \<open>
  The interface \<^verbatim>\<open>Transaction\<close> of \<^verbatim>\<open>supabase.ts\<close>. The fields carry the prefix
  \<open>tx_\<close> because the form state below has fields of the same names. An optional field
  is an \<open>option\<close>; \<open>None\<close> is \<^verbatim>\<open>undefined\<close>.
\<close>

record Transaction =
  tx_id :: "int option"
  tx_date :: string
  tx_category :: string
  tx_item :: string
  tx_vendor :: string
  tx_amount :: jsnum
  tx_from_account :: string
  tx_paid_by :: string
  tx_created_at :: "string option"

record LookupItem =
  li_id :: "int option"
  li_name :: string

datatype SortKey =
  K_id | K_date | K_category | K_item | K_vendor | K_amount | K_from_account | K_paid_by
  | K_created_at

datatype Direction = Asc | Desc

record SortConfig =
  key :: SortKey
  direction :: Direction

datatype Tab = InputTab | SearchTab

subsection \<open>The remote store seen from the client\<close>

text \<open>
  Every query sent to the remote store is recorded, in the order of issue, in the field
  \<open>calls\<close> of the state. A query is described by what the client builds: the table, the
  filters, the ordering and the limit.
\<close>

datatype filter = Gte string string | Lte string string | Eq string string | EqId string int

datatype request =
  Select string "filter list" string bool "nat option"
| InsertTransaction Transaction
| InsertLookup string string
| Delete string "filter list"

text \<open>
  The outcome of an awaited query: the promise rejects (with the message of the thrown
  \<^verbatim>\<open>Error\<close>, or \<open>None\<close> when the thrown value is not an \<^verbatim>\<open>Error\<close>), or it resolves to
  \<^verbatim>\<open>{ data, error }\<close>, where either may be \<^verbatim>\<open>null\<close> and \<open>error\<close> carries its message.
\<close>

datatype 'a response = Rejected "string option" | Resolved "'a option" "string option"

definition rejection :: "'a response \<Rightarrow> string option option" where
  "rejection r = (case r of Rejected e \<Rightarrow> Some e | Resolved _ _ \<Rightarrow> None)"

definition errorOf :: "'a response \<Rightarrow> string option" where
  "errorOf r = (case r of Rejected _ \<Rightarrow> None | Resolved _ e \<Rightarrow> e)"

definition dataOf :: "'a response \<Rightarrow> 'a option" where
  "dataOf r = (case r of Rejected _ \<Rightarrow> None | Resolved d _ \<Rightarrow> d)"

text \<open>A fetch fails when its promise rejects or when it resolves with an error.\<close>

definition failed :: "'a response \<Rightarrow> bool" where
  "failed r = (case r of Rejected _ \<Rightarrow> True | Resolved _ e \<Rightarrow> e \<noteq> None)"

record Env =
  VITE_SUPABASE_URL :: "string option"
  VITE_SUPABASE_ANON_KEY :: "string option"

record LoadResponses =
  catRes :: "LookupItem list response"
  accRes :: "LookupItem list response"
  payRes :: "LookupItem list response"
  transRes :: "Transaction list response"

subsection \<open>The state of the component \<^verbatim>\<open>App\<close>\<close>

text \<open>
  One field for each \<^verbatim>\<open>useState\<close> of \<^verbatim>\<open>App\<close>, with its name, and two logs of effects:
  \<open>calls\<close>, the queries issued to the remote store, and \<open>alerts\<close>, the messages shown with
  \<^verbatim>\<open>alert\<close>. A handler is a function from the state before to the state after; the
  answers of the outside world (the responses of the remote store, the answer to
  \<^verbatim>\<open>window.confirm\<close>, the current date) are its parameters. Handlers run one at a time.
\<close>

record App =
  activeTab :: Tab
  date :: string
  category :: string
  item :: string
  vendor :: string
  amount :: string
  fromAccount :: string
  paidBy :: string
  isSubmitting :: bool
  fromDate :: string
  toDate :: string
  searchCategory :: string
  searchResults :: "Transaction list option"
  currentPage :: int
  sortConfig :: SortConfig
  categories :: "LookupItem list"
  accounts :: "LookupItem list"
  payers :: "LookupItem list"
  allTransactions :: "Transaction list"
  isLoading :: bool
  error :: "string option"
  calls :: "request list"
  alerts :: "string list"

definition itemsPerPage :: int where
  "itemsPerPage = 10"

text \<open>The state after the first render; \<open>today\<close> is what \<^verbatim>\<open>getLocalDate()\<close> returns.\<close>

definition initialApp :: "string \<Rightarrow> App" where
  "initialApp today =
     \<lparr> activeTab = InputTab, date = today, category = [], item = [], vendor = [],
       amount = [], fromAccount = [], paidBy = [], isSubmitting = False,
       fromDate = today, toDate = today, searchCategory = [], searchResults = None,
       currentPage = 1, sortConfig = \<lparr> key = K_created_at, direction = Desc \<rparr>,
       categories = [], accounts = [], payers = [], allTransactions = [],
       isLoading = True, error = None, calls = [], alerts = [] \<rparr>"

text \<open>
  The amount field of the form: \<^verbatim>\<open>onChange={(e) => setAmount(e.target.value)}\<close> on the
  number control. This and \<^verbatim>\<open>setAmount('')\<close> are the only writes of \<open>amount\<close>.
\<close>

definition handleAmountChange :: "string \<Rightarrow> App \<Rightarrow> App" where
  "handleAmountChange text st = st\<lparr> amount := numberInputValue text \<rparr>"

text \<open>The amount is a value that the number control can hold (the empty string is one).\<close>

definition amountFromForm :: "App \<Rightarrow> bool" where
  "amountFromForm st = (numberInputValue (amount st) = amount st)"

section \<open>Record repository\<close>

subsection \<open>\<^verbatim>\<open>fetchData\<close>\<close>

definition configIncomplete :: "Env \<Rightarrow> bool" where
  "configIncomplete env =
     (case VITE_SUPABASE_URL env of
        None \<Rightarrow> True
      | Some supabaseUrl \<Rightarrow>
          (case VITE_SUPABASE_ANON_KEY env of
             None \<Rightarrow> True
           | Some supabaseAnonKey \<Rightarrow>
               supabaseUrl = [] \<or> supabaseAnonKey = []
               \<or> includesStr supabaseUrl ''placeholder''
               \<or> includesStr supabaseAnonKey ''placeholder''))"

definition configMessage :: string where
  "configMessage = ''Supabase configuration is incomplete. Please ensure VITE_SUPABASE_URL and VITE_SUPABASE_ANON_KEY are correctly set in the Secrets panel.''"

definition networkMessage :: string where
  "networkMessage = ''Network Error: Failed to reach Supabase. This usually means the URL is incorrect, the project is paused, or there is a local network/CORS issue. Please double-check your VITE_SUPABASE_URL in Secrets.''"

definition loadRequests :: "request list" where
  "loadRequests =
     [ Select ''categories'' [] ''name'' True None,
       Select ''accounts'' [] ''name'' True None,
       Select ''payers'' [] ''name'' True None,
       Select ''transactions'' [] ''created_at'' False (Some 100) ]"

text \<open>
  The \<^verbatim>\<open>catch\<close> and \<^verbatim>\<open>finally\<close> blocks of \<^verbatim>\<open>fetchData\<close>; \<open>err\<close> is the message of the
  caught \<^verbatim>\<open>Error\<close>, or \<open>None\<close> when the caught value is not an \<^verbatim>\<open>Error\<close>.
\<close>

definition fetchFailed :: "string option \<Rightarrow> App \<Rightarrow> App" where
  "fetchFailed err st =
     (let message = (case err of
                       Some m \<Rightarrow> m
                     | None \<Rightarrow> ''An unknown error occurred connecting to Supabase.'');
          message' = (if includesStr message ''Failed to fetch'' then networkMessage else message)
      in st\<lparr> error := Some message', isLoading := False \<rparr>)"

text \<open>
  \<^verbatim>\<open>Promise.all\<close> rejects as soon as one of the four promises rejects, with the reason of
  that promise; among several rejections the model takes the first in the order of the
  array.
\<close>

definition firstRejection :: "LoadResponses \<Rightarrow> string option option" where
  "firstRejection rs =
     (case rejection (catRes rs) of Some e \<Rightarrow> Some e | None \<Rightarrow>
      (case rejection (accRes rs) of Some e \<Rightarrow> Some e | None \<Rightarrow>
       (case rejection (payRes rs) of Some e \<Rightarrow> Some e | None \<Rightarrow>
        rejection (transRes rs))))"

text \<open>\<^verbatim>\<open>results.filter(r => r.error).map(r => r.error?.message)\<close>\<close>

definition resultErrors :: "LoadResponses \<Rightarrow> string list" where
  "resultErrors rs =
     List.map_filter (\<lambda>e. e)
       [errorOf (catRes rs), errorOf (accRes rs), errorOf (payRes rs), errorOf (transRes rs)]"

definition applyResults :: "LoadResponses \<Rightarrow> App \<Rightarrow> App" where
  "applyResults rs st =
     (let st1 = (case dataOf (catRes rs) of Some d \<Rightarrow> st\<lparr> categories := d \<rparr> | None \<Rightarrow> st);
          st2 = (case dataOf (accRes rs) of Some d \<Rightarrow> st1\<lparr> accounts := d \<rparr> | None \<Rightarrow> st1);
          st3 = (case dataOf (payRes rs) of Some d \<Rightarrow> st2\<lparr> payers := d \<rparr> | None \<Rightarrow> st2)
      in (case dataOf (transRes rs) of Some d \<Rightarrow> st3\<lparr> allTransactions := d \<rparr> | None \<Rightarrow> st3))"

definition fetchData :: "Env \<Rightarrow> LoadResponses \<Rightarrow> App \<Rightarrow> App" where
  "fetchData env rs st =
     (if configIncomplete env then st\<lparr> error := Some configMessage, isLoading := False \<rparr>
      else
        let st1 = st\<lparr> isLoading := True, error := None, calls := calls st @ loadRequests \<rparr>
        in (case firstRejection rs of
              Some err \<Rightarrow> fetchFailed err st1
            | None \<Rightarrow>
                let errors = resultErrors rs
                in if errors \<noteq> []
                   then fetchFailed (Some (''Supabase Error: '' @ join '', '' errors)) st1
                   else (applyResults rs st1)\<lparr> isLoading := False \<rparr>))"

subsection \<open>\<^verbatim>\<open>handleAddTransaction\<close>\<close>

text \<open>The object \<^verbatim>\<open>newTransaction\<close> built from the form fields.\<close>

definition newTransaction :: "App \<Rightarrow> Transaction" where
  "newTransaction st =
     \<lparr> tx_id = None, tx_date = date st, tx_category = category st, tx_item = item st,
       tx_vendor = vendor st, tx_amount = parseFloat (amount st),
       tx_from_account = fromAccount st, tx_paid_by = paidBy st, tx_created_at = None \<rparr>"

text \<open>
  One of the three conditional inserts into a lookup table: the queries it issues, and
  whether the awaited promise rejects. Its resolved value is not looked at.
\<close>

definition lookupInsert ::
  "string \<Rightarrow> string \<Rightarrow> LookupItem list \<Rightarrow> unit response \<Rightarrow> request list \<times> bool" where
  "lookupInsert table v known resp =
     (if v \<noteq> [] \<and> find (\<lambda>c. li_name c = v) known = None
      then ([InsertLookup table v], rejection resp \<noteq> None)
      else ([], False))"

text \<open>The \<^verbatim>\<open>catch\<close> and \<^verbatim>\<open>finally\<close> blocks of \<^verbatim>\<open>handleAddTransaction\<close>.\<close>

definition addFailed :: "App \<Rightarrow> App" where
  "addFailed st =
     st\<lparr> alerts := alerts st @ [''Failed to save record. Please check your Supabase connection.''],
         isSubmitting := False \<rparr>"

text \<open>
  The statements after the lookup inserts. \<^verbatim>\<open>fetchData()\<close> is started and not awaited;
  what it writes (the four collections, \<open>error\<close>, \<open>isLoading\<close>, \<open>calls\<close>) is disjoint from
  what the remaining statements write, so the state after both have finished is the
  same in either order.
\<close>

definition addSucceeded :: "string \<Rightarrow> Env \<Rightarrow> LoadResponses \<Rightarrow> App \<Rightarrow> App" where
  "addSucceeded today env load st =
     (fetchData env load st)
       \<lparr> amount := [], category := [], item := [], vendor := [], fromAccount := [],
         paidBy := [], date := today, currentPage := 1, isSubmitting := False \<rparr>"

definition handleAddTransaction ::
  "string \<Rightarrow> Env \<Rightarrow> Transaction list response \<Rightarrow> unit response \<Rightarrow> unit response
     \<Rightarrow> unit response \<Rightarrow> LoadResponses \<Rightarrow> App \<Rightarrow> App" where
  "handleAddTransaction today env insRes catIns accIns payIns load st =
     (if amount st = [] \<or> isSubmitting st then st
      else
        let st1 = st\<lparr> isSubmitting := True,
                      calls := calls st @ [InsertTransaction (newTransaction st)] \<rparr>
        in if failed insRes then addFailed st1
           else
             let (q1, t1) = lookupInsert ''categories'' (category st) (categories st) catIns;
                 st2 = st1\<lparr> calls := calls st1 @ q1 \<rparr>
             in if t1 then addFailed st2
                else
                  let (q2, t2) = lookupInsert ''accounts'' (fromAccount st) (accounts st) accIns;
                      st3 = st2\<lparr> calls := calls st2 @ q2 \<rparr>
                  in if t2 then addFailed st3
                     else
                       let (q3, t3) = lookupInsert ''payers'' (paidBy st) (payers st) payIns;
                           st4 = st3\<lparr> calls := calls st3 @ q3 \<rparr>
                       in if t3 then addFailed st4
                          else addSucceeded today env load st4)"

subsection \<open>\<^verbatim>\<open>handleDeleteTransaction\<close>\<close>

text \<open>
  \<open>confirmed\<close> is the answer of \<^verbatim>\<open>window.confirm\<close>; it is asked only when the id is
  defined.
\<close>

definition handleDeleteTransaction :: "bool \<Rightarrow> unit response \<Rightarrow> int option \<Rightarrow> App \<Rightarrow> App" where
  "handleDeleteTransaction confirmed res id_opt st =
     (case id_opt of
        None \<Rightarrow> st
      | Some i \<Rightarrow>
          if confirmed then
            let st1 = st\<lparr> calls := calls st @ [Delete ''transactions'' [EqId ''id'' i]] \<rparr>
            in if failed res
               then st1\<lparr> alerts := alerts st1 @ [''Failed to delete record.''] \<rparr>
               else st1\<lparr> allTransactions := filter (\<lambda>t. tx_id t \<noteq> Some i) (allTransactions st1),
                         searchResults :=
                           (case searchResults st of
                              None \<Rightarrow> None
                            | Some _ \<Rightarrow>
                                (case searchResults st1 of
                                   None \<Rightarrow> None
                                 | Some prev \<Rightarrow> Some (filter (\<lambda>t. tx_id t \<noteq> Some i) prev))) \<rparr>
          else st)"

section \<open>Query builder\<close>

definition searchFilters :: "App \<Rightarrow> filter list" where
  "searchFilters st =
     (if fromDate st \<noteq> [] then [Gte ''date'' (fromDate st)] else [])
     @ (if toDate st \<noteq> [] then [Lte ''date'' (toDate st)] else [])
     @ (if searchCategory st \<noteq> [] then [Eq ''category'' (searchCategory st)] else [])"

definition handleSearch :: "Transaction list response \<Rightarrow> App \<Rightarrow> App" where
  "handleSearch res st =
     (let st1 = st\<lparr> isLoading := True,
                   calls := calls st @ [Select ''transactions'' (searchFilters st) ''date'' False None] \<rparr>
      in if failed res
         then st1\<lparr> alerts := alerts st1 @ [''Search failed.''], isLoading := False \<rparr>
         else st1\<lparr> searchResults := dataOf res, currentPage := 1, isLoading := False \<rparr>)"

section \<open>Sort and paginate pipeline\<close>

text \<open>The value \<^verbatim>\<open>a[sortConfig.key]\<close> of a field of a transaction.\<close>

datatype fieldval = Undefined | Str string | Num jsnum

fun field :: "SortKey \<Rightarrow> Transaction \<Rightarrow> fieldval" where
  "field K_id t = (case tx_id t of None \<Rightarrow> Undefined | Some i \<Rightarrow> Num (Fin (of_int i)))"
| "field K_date t = Str (tx_date t)"
| "field K_category t = Str (tx_category t)"
| "field K_item t = Str (tx_item t)"
| "field K_vendor t = Str (tx_vendor t)"
| "field K_amount t = Num (tx_amount t)"
| "field K_from_account t = Str (tx_from_account t)"
| "field K_paid_by t = Str (tx_paid_by t)"
| "field K_created_at t = (case tx_created_at t of None \<Rightarrow> Undefined | Some s \<Rightarrow> Str s)"

text \<open>\<^verbatim>\<open><\<close> on two numbers: false as soon as one of them is \<open>NaN\<close>.\<close>

definition numLess :: "jsnum \<Rightarrow> jsnum \<Rightarrow> bool" where
  "numLess a b =
     (case (a, b) of
        (Fin x, Fin y) \<Rightarrow> x < y
      | (Fin _, PosInf) \<Rightarrow> True
      | (NegInf, Fin _) \<Rightarrow> True
      | (NegInf, PosInf) \<Rightarrow> True
      | _ \<Rightarrow> False)"

text \<open>
  \<^verbatim>\<open><\<close> on two values of one field: strings compare lexicographically by code unit,
  numbers by value. Both values come from the same field, so they have the same type.
\<close>

definition valLess :: "fieldval \<Rightarrow> fieldval \<Rightarrow> bool" where
  "valLess a b =
     (case (a, b) of
        (Str x, Str y) \<Rightarrow> x < y
      | (Num x, Num y) \<Rightarrow> numLess x y
      | _ \<Rightarrow> False)"

definition compareFn :: "SortConfig \<Rightarrow> Transaction \<Rightarrow> Transaction \<Rightarrow> int" where
  "compareFn cfg a b =
     (let aValue = field (key cfg) a; bValue = field (key cfg) b
      in if aValue = Undefined \<or> bValue = Undefined then 0
         else if valLess aValue bValue then (if direction cfg = Asc then - 1 else 1)
         else if valLess bValue aValue then (if direction cfg = Asc then 1 else - 1)
         else 0)"

text \<open>
  \<^verbatim>\<open>Array.prototype.sort\<close> belongs to the host. When the comparator is a consistent
  ordering of the array, the language fixes the result: sorted, elements that compare
  equal in their former order. \<open>compareFn\<close> is not always one (an undefined field compares
  equal to everything), and then the order is the engine's. So the sort of the host is a
  parameter \<open>arraySort\<close> of what follows, of which the statements below use only that
  its result is a permutation of the array.
\<close>

type_synonym arraySort =
  "(Transaction \<Rightarrow> Transaction \<Rightarrow> int) \<Rightarrow> Transaction list \<Rightarrow> Transaction list"

text \<open>
  The stable insertion sort: one sort that a host can have. It stands for \<open>arraySort\<close>
  in the examples, whose transactions all compare equal, so that every host leaves
  them in their order.
\<close>

fun insertBy :: "('a \<Rightarrow> 'a \<Rightarrow> int) \<Rightarrow> 'a \<Rightarrow> 'a list \<Rightarrow> 'a list" where
  "insertBy cmp x [] = [x]"
| "insertBy cmp x (y # ys) = (if cmp x y \<le> 0 then x # y # ys else y # insertBy cmp x ys)"

definition stableSort :: "('a \<Rightarrow> 'a \<Rightarrow> int) \<Rightarrow> 'a list \<Rightarrow> 'a list" where
  "stableSort cmp xs = foldr (insertBy cmp) xs []"

text \<open>The collection on display: that of the active tab.\<close>

definition activeData :: "App \<Rightarrow> Transaction list" where
  "activeData st =
     (case activeTab st of
        InputTab \<Rightarrow> allTransactions st
      | SearchTab \<Rightarrow> (case searchResults st of None \<Rightarrow> [] | Some rs \<Rightarrow> rs))"

definition sortedData :: "arraySort \<Rightarrow> App \<Rightarrow> Transaction list" where
  "sortedData arraySort st = arraySort (compareFn (sortConfig st)) (activeData st)"

text \<open>
  \<^verbatim>\<open>xs.slice(start, stop)\<close>: a negative index counts from the end, both indices are
  brought into \<open>[0, length]\<close>, and the result is empty when they cross.
\<close>

definition slice :: "int \<Rightarrow> int \<Rightarrow> 'a list \<Rightarrow> 'a list" where
  "slice start stop xs =
     (let len = int (length xs);
          k = (if start < 0 then max (len + start) 0 else min start len);
          final = (if stop < 0 then max (len + stop) 0 else min stop len)
      in take (nat (final - k)) (drop (nat k) xs))"

text \<open>\<^verbatim>\<open>paginatedData\<close> as a function of \<^verbatim>\<open>sortedData\<close> and \<^verbatim>\<open>currentPage\<close>.\<close>

definition paginatedData :: "'a list \<Rightarrow> int \<Rightarrow> 'a list" where
  "paginatedData sorted_data page =
     (let startIndex = (page - 1) * itemsPerPage
      in slice startIndex (startIndex + itemsPerPage) sorted_data)"

text \<open>
  \<^verbatim>\<open>Math.ceil(sortedData.length / itemsPerPage)\<close>. The quotient is taken exactly; for the
  lengths an array can have, the binary64 quotient has the same ceiling.
\<close>

definition totalPages :: "'a list \<Rightarrow> int" where
  "totalPages sorted_data = \<lceil>(of_nat (length sorted_data) :: rat) / of_int itemsPerPage\<rceil>"

definition requestSort :: "SortKey \<Rightarrow> App \<Rightarrow> App" where
  "requestSort k st =
     (let direction0 = Asc;
          direction1 = (if key (sortConfig st) = k \<and> direction (sortConfig st) = Asc
                        then Desc else direction0)
      in st\<lparr> sortConfig := \<lparr> key = k, direction = direction1 \<rparr> \<rparr>)"

text \<open>
  The two buttons of the pagination controls. They are rendered only when there is more
  than one page, and each is disabled at its end of the range.
\<close>

definition previousPage :: "App \<Rightarrow> App" where
  "previousPage st = st\<lparr> currentPage := max 1 (currentPage st - 1) \<rparr>"

definition nextPage :: "arraySort \<Rightarrow> App \<Rightarrow> App" where
  "nextPage arraySort st =
     st\<lparr> currentPage := min (totalPages (sortedData arraySort st)) (currentPage st + 1) \<rparr>"

section \<open>CSV exporter\<close>

text \<open>
  The number to string conversion of the language, for a finite number \<open>a\<close> of at
  least \<open>10^21\<close>: with \<open>n\<close>, \<open>k\<close> and \<open>s\<close> such that \<open>s\<close> has \<open>k\<close> digits, the number
  value of \<open>s * 10^(n - k)\<close> is \<open>a\<close> and \<open>k\<close> is as small as possible (of two such \<open>s\<close>
  the one nearer to \<open>a\<close>, the even one on a tie), the text is the first digit of \<open>s\<close>, a
  point and the other digits when there are any, \<^verbatim>\<open>e+\<close> and \<open>n - 1\<close>.

  \<open>shortestDigits a d k\<close> is the \<open>s\<close> of \<open>k\<close> digits for a number \<open>a\<close> whose integer part
  has \<open>d\<close> digits, if there is one; \<open>findDigits\<close> tries \<open>k = 1, 2, \<dots>\<close> and ends, at the
  latest, with all \<open>d\<close> digits of \<open>a\<close>.
\<close>

definition shortestDigits :: "rat \<Rightarrow> nat \<Rightarrow> nat \<Rightarrow> int option" where
  "shortestDigits a d k =
     (let p = 10 ^ (d - k);
          lo = \<lfloor>a / p\<rfloor>;
          hi = \<lceil>a / p\<rceil>;
          okLo = (round64 (of_int lo * p) = Fin a);
          okHi = (round64 (of_int hi * p) = Fin a)
      in if okLo \<and> okHi then
           Some (if a - of_int lo * p < of_int hi * p - a then lo
                 else if of_int hi * p - a < a - of_int lo * p then hi
                 else if even lo then lo else hi)
         else if okLo then Some lo
         else if okHi then Some hi
         else None)"

function findDigits :: "rat \<Rightarrow> nat \<Rightarrow> nat \<Rightarrow> nat \<times> int" where
  "findDigits a d k =
     (if d \<le> k then (d, \<lfloor>a\<rfloor>)
      else (case shortestDigits a d k of
              Some s \<Rightarrow> (k, s)
            | None \<Rightarrow> findDigits a d (Suc k)))"
  by pat_completeness auto
termination
  by (relation "measure (\<lambda>(a, d, k). d - k)") auto

declare findDigits.simps [simp del]

text \<open>
  The text for \<open>n\<close>, \<open>k\<close> and \<open>s\<close>. When the digits found are \<open>10^k\<close> (the number
  rounds up to the next power of ten) they are the one digit 1 of a number with one
  more digit.
\<close>

definition exponentText :: "nat \<Rightarrow> nat \<Rightarrow> int \<Rightarrow> string" where
  "exponentText n k s =
     (let (n', ds) = (if s = 10 ^ k then (Suc n, ''1'') else (n, decimal s))
      in (case ds of [] \<Rightarrow> [] | c # r \<Rightarrow> if r = [] then [c] else c # CHR ''.'' # r)
         @ ''e+'' @ decimal (int n' - 1))"

definition numberToString :: "rat \<Rightarrow> string" where
  "numberToString a =
     (let x = (case round64 a of Fin r \<Rightarrow> r | _ \<Rightarrow> a);
          d = length (decimal \<lfloor>x\<rfloor>);
          (k, s) = findDigits x d 1
      in exponentText d k s)"

text \<open>
  \<^verbatim>\<open>x.toFixed(f)\<close> for \<open>f\<close> at most 100. A number that is not finite is printed by name.
  A finite number of magnitude at least \<open>10^21\<close> is printed by the number to string
  conversion. Otherwise the integer \<open>n\<close> closest to \<open>x * 10^f\<close> is taken, the larger one
  on a tie, and its digits are printed with the point before the last \<open>f\<close> of them.
\<close>

definition toFixed :: "nat \<Rightarrow> jsnum \<Rightarrow> string" where
  "toFixed f x =
     (case x of
        NaN \<Rightarrow> ''NaN''
      | PosInf \<Rightarrow> ''Infinity''
      | NegInf \<Rightarrow> ''-Infinity''
      | Fin q \<Rightarrow>
          let s = (if q < 0 then ''-'' else []);
              a = \<bar>q\<bar>
          in if 10 ^ 21 \<le> a then s @ numberToString a
             else
               let n = \<lfloor>a * 10 ^ f + 1 / 2\<rfloor>;
                   m = decimal n
               in if f \<noteq> 0 then
                    let m' = (if length m \<le> f then replicate (f + 1 - length m) CHR ''0'' @ m else m);
                        k = length m'
                    in s @ take (k - f) m' @ ''.'' @ drop (k - f) m'
                  else s @ m)"

record Download =
  filename :: string
  mimeType :: string
  content :: string

definition csvHeaders :: "string list" where
  "csvHeaders = [''Date'', ''Category'', ''Item'', ''Vendor'', ''Amount'', ''Account'', ''Paid By'']"

definition csvRow :: "Transaction \<Rightarrow> string list" where
  "csvRow t =
     [tx_date t, tx_category t, tx_item t, tx_vendor t, toFixed 2 (tx_amount t),
      tx_from_account t, tx_paid_by t]"

text \<open>
  \<^verbatim>\<open>exportToCSV\<close>: \<open>None\<close> when it returns at its first line, otherwise the file
  offered for download.
\<close>

definition exportToCSV :: "string \<Rightarrow> App \<Rightarrow> Download option" where
  "exportToCSV today st =
     (case searchResults st of
        None \<Rightarrow> None
      | Some rs \<Rightarrow>
          if length rs = 0 then None
          else
            let rows = map csvRow rs;
                csvContent =
                  join [CHR 0x0A]
                    (join '','' csvHeaders
                     # map (\<lambda>row. join '','' (map (\<lambda>val. [CHR 0x22] @ val @ [CHR 0x22]) row)) rows)
            in Some \<lparr> filename = ''consumption_records_'' @ today @ ''.csv'',
                      mimeType = ''text/csv;charset=utf-8;'',
                      content = csvContent \<rparr>)"

text \<open>
  The amounts that \<^verbatim>\<open>toFixed\<close> prints in fixed notation: finite, of magnitude below
  \<open>10^21\<close>.
\<close>

definition fixedRange :: "jsnum \<Rightarrow> bool" where
  "fixedRange x = (case x of Fin q \<Rightarrow> \<bar>q\<bar> < 10 ^ 21 | _ \<Rightarrow> False)"

text \<open>
  A text with exactly two decimal places: an optional minus sign, at least one digit, a
  point, two digits.
\<close>

definition twoDecimals :: "string \<Rightarrow> bool" where
  "twoDecimals str =
     (let body = (case str of [] \<Rightarrow> [] | c # r \<Rightarrow> if c = CHR ''-'' then r else str)
      in (case rev body of
            d2 # d1 # p # ip \<Rightarrow>
              isDigit d2 \<and> isDigit d1 \<and> p = CHR ''.'' \<and> ip \<noteq> [] \<and> list_all isDigit ip
          | _ \<Rightarrow> False))"

subsection \<open>The artifact as the specification words it\<close>

text \<open>
  The text of the specification, to be compared with \<open>exportToCSV\<close>: the header row,
  then one row per transaction in the order of the collection, each field wrapped in
  double quotes, the fields separated by commas, the rows separated by a newline.
\<close>

definition quoted :: "string \<Rightarrow> string" where
  "quoted v = CHR 0x22 # v @ [CHR 0x22]"

definition spec_csvLine :: "Transaction \<Rightarrow> string" where
  "spec_csvLine t =
     quoted (tx_date t) @ '','' @ quoted (tx_category t) @ '','' @ quoted (tx_item t) @ '',''
     @ quoted (tx_vendor t) @ '','' @ quoted (toFixed 2 (tx_amount t)) @ '',''
     @ quoted (tx_from_account t) @ '','' @ quoted (tx_paid_by t)"

definition spec_csvText :: "Transaction list \<Rightarrow> string" where
  "spec_csvText rs =
     ''Date,Category,Item,Vendor,Amount,Account,Paid By''
     @ concat (map (\<lambda>t. CHR 0x0A # spec_csvLine t) rs)"

section \<open>Configuration as the specification words it\<close>

text \<open>
  A connection parameter is absent (undefined or empty) or still a placeholder (it
  contains the word \<^verbatim>\<open>placeholder\<close>).
\<close>

definition absentOrPlaceholder :: "string option \<Rightarrow> bool" where
  "absentOrPlaceholder v =
     (case v of None \<Rightarrow> True | Some s \<Rightarrow> s = [] \<or> includesStr s ''placeholder'')"

section \<open>Sample data\<close>

text \<open>The transaction of the scenario of the specification, with a given id.\<close>

definition sampleTransaction :: "int \<Rightarrow> Transaction" where
  "sampleTransaction i =
     \<lparr> tx_id = Some i, tx_date = ''2024-01-15'', tx_category = ''Food'', tx_item = ''Coffee'',
       tx_vendor = ''Cafe X'', tx_amount = Fin (9 / 2), tx_from_account = ''Checking'',
       tx_paid_by = ''Alice'', tx_created_at = Some ''2024-01-15T09:30:00'' \<rparr>"

definition elevenTransactions :: "Transaction list" where
  "elevenTransactions = map sampleTransaction [1, 2, 3, 4, 5, 6, 7, 8, 9, 10, 11]"

definition sampleEnv :: Env where
  "sampleEnv =
     \<lparr> VITE_SUPABASE_URL = Some ''https://example.supabase.co'',
       VITE_SUPABASE_ANON_KEY = Some ''anon-key'' \<rparr>"

definition missingEnv :: Env where
  "missingEnv = \<lparr> VITE_SUPABASE_URL = None, VITE_SUPABASE_ANON_KEY = None \<rparr>"

text \<open>A load in which the four fetches succeed, with the given transactions.\<close>

definition okLoad :: "Transaction list \<Rightarrow> LoadResponses" where
  "okLoad ts =
     \<lparr> catRes = Resolved (Some []) None, accRes = Resolved (Some []) None,
       payRes = Resolved (Some []) None, transRes = Resolved (Some ts) None \<rparr>"

definition sampleApp :: App where
  "sampleApp = initialApp ''2024-01-15''"

section \<open>Facts about the helpers\<close>

lemma parseFloat_abc: "parseFloat ''abc'' = NaN"
  by (simp add: parseFloat_def parseUnsigned_def startsWith_def isWhite_def isDigit_def)

lemma parseFloat_4_5: "parseFloat ''4.5'' = Fin (9 / 2)"
  by code_simp

lemma parseFloat_empty: "parseFloat [] = NaN"
  by (simp add: parseFloat_def parseUnsigned_def startsWith_def)

text \<open>What the number control holds is empty or parses to a finite number.\<close>

lemma numberInputValue_finite:
  "numberInputValue text \<noteq> [] \<Longrightarrow> isFinite (parseFloat (numberInputValue text))"
  by (simp add: numberInputValue_def split: if_splits)

lemma numberInputValue_idem: "numberInputValue (numberInputValue text) = numberInputValue text"
proof (cases "validFloatingPointNumber text \<and> isFinite (parseFloat text)")
  case True
  then show ?thesis by (simp add: numberInputValue_def)
next
  case False
  then have "numberInputValue text = []" by (auto simp: numberInputValue_def)
  moreover have "numberInputValue [] = []" by (simp add: numberInputValue_def)
  ultimately show ?thesis by simp
qed

lemma numberInputValue_abc: "numberInputValue ''abc'' = []"
  by (simp add: numberInputValue_def validFloatingPointNumber_def isDigit_def)

lemma numberInputValue_4_5: "numberInputValue ''4.5'' = ''4.5''"
  by (simp add: numberInputValue_def validFloatingPointNumber_def validExponent_def isDigit_def
      parseFloat_4_5 isFinite_def)

lemma startsWith_iff: "startsWith s p \<longleftrightarrow> (\<exists>b. s = p @ b)"
  unfolding startsWith_def
  by (metis append_eq_conv_conj append_take_drop_id)

text \<open>\<open>includesStr\<close> is the substring test.\<close>

lemma includesStr_iff: "includesStr s p \<longleftrightarrow> (\<exists>a b. s = a @ p @ b)"
proof (induction s)
  case Nil
  then show ?case by auto
next
  case (Cons c cs)
  show ?case
  proof
    assume "includesStr (c # cs) p"
    then consider "startsWith (c # cs) p" | "includesStr cs p" by auto
    then show "\<exists>a b. c # cs = a @ p @ b"
    proof cases
      case 1
      then obtain b where "c # cs = p @ b" by (auto simp: startsWith_iff)
      then have "c # cs = [] @ p @ b" by simp
      then show ?thesis by blast
    next
      case 2
      with Cons.IH obtain a b where "cs = a @ p @ b" by blast
      then have "c # cs = (c # a) @ p @ b" by simp
      then show ?thesis by blast
    qed
  next
    assume "\<exists>a b. c # cs = a @ p @ b"
    then obtain a b where ab: "c # cs = a @ p @ b" by blast
    show "includesStr (c # cs) p"
    proof (cases a)
      case Nil
      with ab have "startsWith (c # cs) p" by (auto simp: startsWith_iff)
      then show ?thesis by simp
    next
      case (Cons a0 as)
      with ab have "cs = as @ p @ b" by simp
      with Cons.IH have "includesStr cs p" by blast
      then show ?thesis by simp
    qed
  qed
qed

lemma configIncomplete_iff:
  "configIncomplete env \<longleftrightarrow>
     absentOrPlaceholder (VITE_SUPABASE_URL env) \<or> absentOrPlaceholder (VITE_SUPABASE_ANON_KEY env)"
  by (auto simp: configIncomplete_def absentOrPlaceholder_def split: option.splits)

lemma configIncomplete_missingEnv: "configIncomplete missingEnv"
  by (simp add: configIncomplete_def missingEnv_def)

lemma configIncomplete_sampleEnv: "\<not> configIncomplete sampleEnv"
  by (simp add: configIncomplete_def sampleEnv_def startsWith_def)

section \<open>Facts about the record repository\<close>

lemma applyResults_others:
  "calls (applyResults rs st) = calls st"
  "currentPage (applyResults rs st) = currentPage st"
  "searchResults (applyResults rs st) = searchResults st"
  "activeTab (applyResults rs st) = activeTab st"
  "sortConfig (applyResults rs st) = sortConfig st"
  by (simp_all add: applyResults_def Let_def split: option.splits)

lemma fetchFailed_fields:
  "categories (fetchFailed e st) = categories st"
  "accounts (fetchFailed e st) = accounts st"
  "payers (fetchFailed e st) = payers st"
  "allTransactions (fetchFailed e st) = allTransactions st"
  "searchResults (fetchFailed e st) = searchResults st"
  "calls (fetchFailed e st) = calls st"
  "currentPage (fetchFailed e st) = currentPage st"
  "isLoading (fetchFailed e st) = False"
  by (simp_all add: fetchFailed_def Let_def)

lemma fetchFailed_error: "\<exists>m. error (fetchFailed e st) = Some m"
  by (simp add: fetchFailed_def Let_def)

text \<open>No fetch of a load fails exactly when no promise rejects and no result has an error.\<close>

lemma no_failure_iff:
  "firstRejection rs = None \<and> resultErrors rs = []
   \<longleftrightarrow> \<not> (failed (catRes rs) \<or> failed (accRes rs) \<or> failed (payRes rs) \<or> failed (transRes rs))"
  by (cases "catRes rs"; cases "accRes rs"; cases "payRes rs"; cases "transRes rs")
     (auto simp: firstRejection_def resultErrors_def failed_def rejection_def errorOf_def
        List.map_filter_def)

lemma fetchData_calls:
  "calls (fetchData env rs st) = (if configIncomplete env then calls st else calls st @ loadRequests)"
  by (simp add: fetchData_def Let_def fetchFailed_fields applyResults_others split: option.splits)

lemma fetchData_ok:
  assumes "\<not> configIncomplete env"
  shows "fetchData env (okLoad ts) st
     = st\<lparr> isLoading := False, error := None, calls := calls st @ loadRequests,
           categories := [], accounts := [], payers := [], allTransactions := ts \<rparr>"
  using assms
  by (simp add: fetchData_def okLoad_def firstRejection_def rejection_def resultErrors_def
      errorOf_def List.map_filter_def applyResults_def dataOf_def Let_def)

lemma addFailed_calls: "calls (addFailed st) = calls st"
  by (simp add: addFailed_def)

lemma addSucceeded_calls:
  "calls (addSucceeded today env rs st)
     = (if configIncomplete env then calls st else calls st @ loadRequests)"
  by (simp add: addSucceeded_def fetchData_calls)

lemma addSucceeded_page: "currentPage (addSucceeded today env rs st) = 1"
  by (simp add: addSucceeded_def)

text \<open>An accepted submission issues the insert of the transaction first.\<close>

lemma handleAdd_calls:
  assumes "amount st \<noteq> []" "\<not> isSubmitting st"
  shows "\<exists>rest. calls (handleAddTransaction today env ires c1 c2 c3 rs st)
                     = calls st @ InsertTransaction (newTransaction st) # rest"
  using assms
  by (simp add: handleAddTransaction_def Let_def addFailed_calls addSucceeded_calls
      split: prod.splits)

section \<open>Insert: what is checked before the request\<close>

text \<open>
  The amount of the form is always a value of the number control: it is one at the
  start, the control writes one, and the handlers leave the amount as it is or empty it.
\<close>

lemma amountFromForm_initial: "amountFromForm (initialApp today)"
  by (simp add: amountFromForm_def initialApp_def numberInputValue_def)

lemma amountFromForm_change: "amountFromForm (handleAmountChange text st)"
  by (simp add: amountFromForm_def handleAmountChange_def numberInputValue_idem)

lemma fetchData_amount: "amount (fetchData env rs st) = amount st"
  by (simp add: fetchData_def Let_def fetchFailed_def applyResults_def split: option.splits)

lemma handleAdd_amount:
  "amount (handleAddTransaction today env ires c1 c2 c3 rs st) = amount st
   \<or> amount (handleAddTransaction today env ires c1 c2 c3 rs st) = []"
  by (simp add: handleAddTransaction_def Let_def addFailed_def addSucceeded_def split: prod.splits)

lemma amountFromForm_kept:
  assumes "amountFromForm st"
  shows "amountFromForm (handleAddTransaction today env ires c1 c2 c3 rs st)"
    and "amountFromForm (fetchData env rs st)"
    and "amountFromForm (handleDeleteTransaction confirmed dres i st)"
    and "amountFromForm (handleSearch sres st)"
    and "amountFromForm (requestSort k st)"
    and "amountFromForm (previousPage st)"
    and "amountFromForm (nextPage arraySort st)"
proof -
  have e: "numberInputValue [] = []" by (simp add: numberInputValue_def)
  from handleAdd_amount [of today env ires c1 c2 c3 rs st] assms e
  show "amountFromForm (handleAddTransaction today env ires c1 c2 c3 rs st)"
    unfolding amountFromForm_def by auto
  from assms show "amountFromForm (fetchData env rs st)"
    by (simp add: amountFromForm_def fetchData_amount)
  from assms show "amountFromForm (handleDeleteTransaction confirmed dres i st)"
    by (simp add: amountFromForm_def handleDeleteTransaction_def Let_def split: option.splits)
  from assms show "amountFromForm (handleSearch sres st)"
    by (simp add: amountFromForm_def handleSearch_def Let_def)
  from assms show "amountFromForm (requestSort k st)"
    by (simp add: amountFromForm_def requestSort_def Let_def)
  from assms show "amountFromForm (previousPage st)"
    by (simp add: amountFromForm_def previousPage_def)
  from assms show "amountFromForm (nextPage arraySort st)"
    by (simp add: amountFromForm_def nextPage_def)
qed

text \<open>
  Claim C1. The amount submitted is the one the number control of the form holds.
  When it is not a parsable finite number, \<open>handleAddTransaction\<close> fails before any
  network call: it returns at its first line, no request is issued and the state is
  the one before. (The failure is this return; the code has no error value.) The same
  holds while a submission is in flight. Otherwise the amount is a finite number, and
  the first request issued is the insert of the transaction that carries it.
\<close>

theorem insert_validates_amount:
  assumes "amountFromForm st"
  shows "(\<not> isFinite (parseFloat (amount st)) \<longrightarrow>
           handleAddTransaction today env ires c1 c2 c3 rs st = st)
       \<and> (isSubmitting st \<longrightarrow> handleAddTransaction today env ires c1 c2 c3 rs st = st)
       \<and> (isFinite (parseFloat (amount st)) \<and> \<not> isSubmitting st \<longrightarrow>
            (\<exists>rest. calls (handleAddTransaction today env ires c1 c2 c3 rs st)
                      = calls st @ InsertTransaction (newTransaction st) # rest)
            \<and> tx_amount (newTransaction st) = parseFloat (amount st)
            \<and> isFinite (tx_amount (newTransaction st)))"
proof -
  have a: "\<not> isFinite (parseFloat (amount st)) \<longrightarrow> amount st = []"
    using assms numberInputValue_finite [of "amount st"] by (auto simp: amountFromForm_def)
  have b: "isFinite (parseFloat (amount st)) \<longrightarrow> amount st \<noteq> []"
    by (auto simp: parseFloat_empty isFinite_def)
  have c: "amount st = [] \<or> isSubmitting st \<longrightarrow>
      handleAddTransaction today env ires c1 c2 c3 rs st = st"
    by (simp add: handleAddTransaction_def)
  have d: "tx_amount (newTransaction st) = parseFloat (amount st)"
    by (simp add: newTransaction_def)
  from a b c d handleAdd_calls [of st today env ires c1 c2 c3 rs] show ?thesis
    by auto
qed

theorem insert_validates_amount_witness:
  "handleAddTransaction ''2024-01-15'' sampleEnv (Resolved (Some []) None) (Resolved None None)
       (Resolved None None) (Resolved None None) (okLoad [])
       (handleAmountChange ''abc'' sampleApp)
     = handleAmountChange ''abc'' sampleApp
   \<and> calls (handleAmountChange ''abc'' sampleApp) = []
   \<and> (\<exists>rest. calls (handleAddTransaction ''2024-01-15'' sampleEnv (Resolved (Some []) None)
                  (Resolved None None) (Resolved None None) (Resolved None None) (okLoad [])
                  (handleAmountChange ''4.5'' sampleApp))
         = InsertTransaction (newTransaction (handleAmountChange ''4.5'' sampleApp)) # rest)
   \<and> tx_amount (newTransaction (handleAmountChange ''4.5'' sampleApp)) = Fin (9 / 2)"
proof -
  let ?bad = "handleAmountChange ''abc'' sampleApp"
  let ?good = "handleAmountChange ''4.5'' sampleApp"
  have ab: "amount ?bad = []" "calls ?bad = []"
    by (simp_all add: handleAmountChange_def numberInputValue_abc sampleApp_def initialApp_def)
  have ag: "amount ?good = ''4.5''" "calls ?good = []" "\<not> isSubmitting ?good"
    by (simp_all add: handleAmountChange_def numberInputValue_4_5 sampleApp_def initialApp_def)
  have nb: "\<not> isFinite (parseFloat (amount ?bad))"
    by (simp add: ab parseFloat_empty isFinite_def)
  have fg: "isFinite (parseFloat (amount ?good))"
    by (simp add: ag parseFloat_4_5 isFinite_def)
  from insert_validates_amount [OF amountFromForm_change, of "''abc''" sampleApp "''2024-01-15''"
      sampleEnv "Resolved (Some []) None" "Resolved None None" "Resolved None None"
      "Resolved None None" "okLoad []"] nb
  have 1: "handleAddTransaction ''2024-01-15'' sampleEnv (Resolved (Some []) None)
       (Resolved None None) (Resolved None None) (Resolved None None) (okLoad []) ?bad = ?bad"
    by blast
  from insert_validates_amount [OF amountFromForm_change, of "''4.5''" sampleApp "''2024-01-15''"
      sampleEnv "Resolved (Some []) None" "Resolved None None" "Resolved None None"
      "Resolved None None" "okLoad []"] fg ag(3)
  have 2: "\<exists>rest. calls (handleAddTransaction ''2024-01-15'' sampleEnv (Resolved (Some []) None)
                  (Resolved None None) (Resolved None None) (Resolved None None) (okLoad []) ?good)
         = calls ?good @ InsertTransaction (newTransaction ?good) # rest"
    and 3: "tx_amount (newTransaction ?good) = parseFloat (amount ?good)"
    by blast+
  from 1 2 3 ab(2) show ?thesis
    unfolding ag(1) ag(2) parseFloat_4_5 by simp
qed

section \<open>Delete\<close>

text \<open>
  Claim C2. After a confirmed delete of \<open>i\<close> that the remote store accepts, the
  transaction collection is the former one without the records whose id is \<open>i\<close>, all
  other records kept in their order, and so is the search result when there is one; no
  record with this id is left; the only request issued is the delete, so nothing is
  loaded again. After a delete that fails, both collections are what they were.
\<close>

theorem delete_removes_exactly:
  "(\<not> failed res \<longrightarrow>
      allTransactions (handleDeleteTransaction True res (Some i) st)
        = filter (\<lambda>t. tx_id t \<noteq> Some i) (allTransactions st)
      \<and> searchResults (handleDeleteTransaction True res (Some i) st)
        = map_option (filter (\<lambda>t. tx_id t \<noteq> Some i)) (searchResults st)
      \<and> filter (\<lambda>t. tx_id t = Some i) (allTransactions (handleDeleteTransaction True res (Some i) st)) = []
      \<and> calls (handleDeleteTransaction True res (Some i) st)
        = calls st @ [Delete ''transactions'' [EqId ''id'' i]])
   \<and> (failed res \<longrightarrow>
      allTransactions (handleDeleteTransaction True res (Some i) st) = allTransactions st
      \<and> searchResults (handleDeleteTransaction True res (Some i) st) = searchResults st)"
  by (auto simp: handleDeleteTransaction_def Let_def filter_empty_conv split: option.splits)

theorem delete_removes_exactly_witness:
  "allTransactions (handleDeleteTransaction True (Resolved None None) (Some 2)
       (sampleApp\<lparr> allTransactions := [sampleTransaction 1, sampleTransaction 2, sampleTransaction 3],
                   searchResults := Some [sampleTransaction 2] \<rparr>))
     = [sampleTransaction 1, sampleTransaction 3]
   \<and> searchResults (handleDeleteTransaction True (Resolved None None) (Some 2)
       (sampleApp\<lparr> allTransactions := [sampleTransaction 1, sampleTransaction 2, sampleTransaction 3],
                   searchResults := Some [sampleTransaction 2] \<rparr>))
     = Some []
   \<and> allTransactions (handleDeleteTransaction True (Resolved None (Some ''permission denied'')) (Some 2)
       (sampleApp\<lparr> allTransactions := [sampleTransaction 1, sampleTransaction 2, sampleTransaction 3],
                   searchResults := Some [sampleTransaction 2] \<rparr>))
     = [sampleTransaction 1, sampleTransaction 2, sampleTransaction 3]"
proof -
  let ?s = "sampleApp\<lparr> allTransactions := [sampleTransaction 1, sampleTransaction 2, sampleTransaction 3],
                        searchResults := Some [sampleTransaction 2] \<rparr>"
  have ok: "\<not> failed (Resolved None None :: unit response)"
    by (simp add: failed_def)
  have ko: "failed (Resolved None (Some ''permission denied'') :: unit response)"
    by (simp add: failed_def)
  from ok ko delete_removes_exactly [of "Resolved None None" 2 ?s]
    delete_removes_exactly [of "Resolved None (Some ''permission denied'')" 2 ?s]
  show ?thesis
    by (simp add: sampleTransaction_def)
qed

text \<open>
  Claim C10. With an undefined id the handler returns at its first line: the state
  is the one before, and with it the log of requests, the transaction collection and
  the search result.
\<close>

theorem delete_undefined_noop:
  "handleDeleteTransaction confirmed res None st = st
   \<and> calls (handleDeleteTransaction confirmed res None st) = calls st
   \<and> allTransactions (handleDeleteTransaction confirmed res None st) = allTransactions st
   \<and> searchResults (handleDeleteTransaction confirmed res None st) = searchResults st"
  by (simp add: handleDeleteTransaction_def)

section \<open>Load\<close>

text \<open>
  Claim C4. When one of the four fetches of a load fails (its promise rejects, or it
  resolves with an error), the categories, the accounts, the payers and the
  transactions are what they were before the load, and the error message of the state
  is set.
\<close>

theorem load_failure_keeps_collections:
  assumes "failed (catRes rs) \<or> failed (accRes rs) \<or> failed (payRes rs) \<or> failed (transRes rs)"
  shows "categories (fetchData env rs st) = categories st
       \<and> accounts (fetchData env rs st) = accounts st
       \<and> payers (fetchData env rs st) = payers st
       \<and> allTransactions (fetchData env rs st) = allTransactions st
       \<and> (\<exists>m. error (fetchData env rs st) = Some m)"
proof (cases "configIncomplete env")
  case True
  then show ?thesis by (simp add: fetchData_def)
next
  case False
  let ?st1 = "st\<lparr> isLoading := True, error := None, calls := calls st @ loadRequests \<rparr>"
  from assms no_failure_iff [of rs]
  have "firstRejection rs \<noteq> None \<or> resultErrors rs \<noteq> []" by auto
  with False have "\<exists>e. fetchData env rs st = fetchFailed e ?st1"
    by (auto simp: fetchData_def Let_def split: option.splits)
  then obtain e where "fetchData env rs st = fetchFailed e ?st1" ..
  then show ?thesis using fetchFailed_error [of e ?st1] by (simp add: fetchFailed_fields)
qed

theorem load_failure_keeps_collections_witness:
  "allTransactions
     (fetchData sampleEnv
        ((okLoad [sampleTransaction 2])\<lparr> payRes := Resolved None (Some ''permission denied'') \<rparr>)
        (sampleApp\<lparr> allTransactions := [sampleTransaction 1] \<rparr>))
     = [sampleTransaction 1]
   \<and> (\<exists>m. error
        (fetchData sampleEnv
           ((okLoad [sampleTransaction 2])\<lparr> payRes := Resolved None (Some ''permission denied'') \<rparr>)
           (sampleApp\<lparr> allTransactions := [sampleTransaction 1] \<rparr>)) = Some m)"
proof -
  let ?rs = "(okLoad [sampleTransaction 2])\<lparr> payRes := Resolved None (Some ''permission denied'') \<rparr>"
  have "failed (payRes ?rs)"
    by (simp add: failed_def)
  then have "failed (catRes ?rs) \<or> failed (accRes ?rs) \<or> failed (payRes ?rs) \<or> failed (transRes ?rs)"
    by blast
  from load_failure_keeps_collections [OF this, of sampleEnv "sampleApp\<lparr> allTransactions := [sampleTransaction 1] \<rparr>"]
  show ?thesis by simp
qed

section \<open>Configuration\<close>

text \<open>
  Claim C5, as the code has it. When a connection parameter is absent or still a
  placeholder, the load \<open>fetchData\<close> sets the configuration message, clears the loading
  flag and issues no request. The other operations do not look at the configuration:
  a search issues its select, a confirmed delete issues its delete, and an accepted
  submission issues its insert, whatever the parameters are.
\<close>

theorem load_config_short_circuit:
  assumes "absentOrPlaceholder (VITE_SUPABASE_URL env) \<or> absentOrPlaceholder (VITE_SUPABASE_ANON_KEY env)"
  shows "fetchData env rs st = st\<lparr> error := Some configMessage, isLoading := False \<rparr>
       \<and> calls (fetchData env rs st) = calls st
       \<and> calls (handleSearch res st)
           = calls st @ [Select ''transactions'' (searchFilters st) ''date'' False None]
       \<and> calls (handleDeleteTransaction True dres (Some i) st)
           = calls st @ [Delete ''transactions'' [EqId ''id'' i]]
       \<and> (amount st \<noteq> [] \<and> \<not> isSubmitting st \<longrightarrow>
            (\<exists>rest. calls (handleAddTransaction today env ires c1 c2 c3 rs st)
                     = calls st @ InsertTransaction (newTransaction st) # rest))"
proof -
  from assms have inc: "configIncomplete env" by (simp add: configIncomplete_iff)
  then have a: "fetchData env rs st = st\<lparr> error := Some configMessage, isLoading := False \<rparr>"
    by (simp add: fetchData_def)
  have b: "calls (handleSearch res st)
      = calls st @ [Select ''transactions'' (searchFilters st) ''date'' False None]"
    by (simp add: handleSearch_def Let_def)
  have c: "calls (handleDeleteTransaction True dres (Some i) st)
      = calls st @ [Delete ''transactions'' [EqId ''id'' i]]"
    by (simp add: handleDeleteTransaction_def Let_def)
  from a b c handleAdd_calls [of st today env ires c1 c2 c3 rs] show ?thesis by simp
qed

theorem load_config_short_circuit_witness:
  "fetchData
     \<lparr> VITE_SUPABASE_URL = Some ''https://placeholder.supabase.co'',
       VITE_SUPABASE_ANON_KEY = Some ''placeholder-key'' \<rparr>
     (okLoad [sampleTransaction 1]) sampleApp
     = sampleApp\<lparr> error := Some configMessage, isLoading := False \<rparr>
   \<and> calls (fetchData
        \<lparr> VITE_SUPABASE_URL = Some ''https://placeholder.supabase.co'',
          VITE_SUPABASE_ANON_KEY = Some ''placeholder-key'' \<rparr>
        (okLoad [sampleTransaction 1]) sampleApp) = []"
proof -
  let ?env = "\<lparr> VITE_SUPABASE_URL = Some ''https://placeholder.supabase.co'',
                 VITE_SUPABASE_ANON_KEY = Some ''placeholder-key'' \<rparr>"
  have "absentOrPlaceholder (VITE_SUPABASE_ANON_KEY ?env)"
    by (simp add: absentOrPlaceholder_def startsWith_def)
  then have h: "absentOrPlaceholder (VITE_SUPABASE_URL ?env) \<or> absentOrPlaceholder (VITE_SUPABASE_ANON_KEY ?env)"
    by blast
  have c: "calls sampleApp = []"
    by (simp add: sampleApp_def initialApp_def)
  from load_config_short_circuit [OF h, of "okLoad [sampleTransaction 1]" sampleApp] c
  show ?thesis by simp
qed

text \<open>
  The claim as the specification states it fails: with both connection parameters
  absent, a submission still issues its insert request (here the request fails and
  the failure is reported by an alert), and a search still issues its select; neither
  sets the configuration message.
\<close>

theorem operations_ignore_config_counterexample:
  "configIncomplete missingEnv
   \<and> calls (handleAddTransaction ''2024-01-15'' missingEnv (Rejected (Some ''TypeError: Failed to fetch''))
        (Resolved None None) (Resolved None None) (Resolved None None) (okLoad [])
        (sampleApp\<lparr> amount := ''4.5'' \<rparr>))
      = [InsertTransaction
          \<lparr> tx_id = None, tx_date = ''2024-01-15'', tx_category = [], tx_item = [],
            tx_vendor = [], tx_amount = Fin (9 / 2), tx_from_account = [], tx_paid_by = [],
            tx_created_at = None \<rparr>]
   \<and> error (handleAddTransaction ''2024-01-15'' missingEnv (Rejected (Some ''TypeError: Failed to fetch''))
        (Resolved None None) (Resolved None None) (Resolved None None) (okLoad [])
        (sampleApp\<lparr> amount := ''4.5'' \<rparr>)) = None
   \<and> calls (handleSearch (Rejected (Some ''TypeError: Failed to fetch'')) sampleApp)
      = [Select ''transactions'' [Gte ''date'' ''2024-01-15'', Lte ''date'' ''2024-01-15''] ''date''
           False None]
   \<and> error (handleSearch (Rejected (Some ''TypeError: Failed to fetch'')) sampleApp) = None"
proof -
  have a: "calls (handleAddTransaction ''2024-01-15'' missingEnv (Rejected (Some ''TypeError: Failed to fetch''))
        (Resolved None None) (Resolved None None) (Resolved None None) (okLoad [])
        (sampleApp\<lparr> amount := ''4.5'' \<rparr>))
      = [InsertTransaction
          \<lparr> tx_id = None, tx_date = ''2024-01-15'', tx_category = [], tx_item = [],
            tx_vendor = [], tx_amount = Fin (9 / 2), tx_from_account = [], tx_paid_by = [],
            tx_created_at = None \<rparr>]"
    by (simp add: handleAddTransaction_def Let_def failed_def addFailed_def newTransaction_def
        parseFloat_4_5 sampleApp_def initialApp_def)
  have b: "error (handleAddTransaction ''2024-01-15'' missingEnv (Rejected (Some ''TypeError: Failed to fetch''))
        (Resolved None None) (Resolved None None) (Resolved None None) (okLoad [])
        (sampleApp\<lparr> amount := ''4.5'' \<rparr>)) = None"
    by (simp add: handleAddTransaction_def Let_def failed_def addFailed_def
        sampleApp_def initialApp_def)
  have c: "calls (handleSearch (Rejected (Some ''TypeError: Failed to fetch'')) sampleApp)
      = [Select ''transactions'' [Gte ''date'' ''2024-01-15'', Lte ''date'' ''2024-01-15''] ''date''
           False None]"
    by (simp add: handleSearch_def Let_def searchFilters_def sampleApp_def initialApp_def)
  have d: "error (handleSearch (Rejected (Some ''TypeError: Failed to fetch'')) sampleApp) = None"
    by (simp add: handleSearch_def Let_def failed_def sampleApp_def initialApp_def)
  from configIncomplete_missingEnv a b c d show ?thesis by blast
qed

section \<open>Search\<close>

lemma searchFilters_Gte:
  "Gte c v \<in> set (searchFilters st) \<longleftrightarrow> c = ''date'' \<and> v = fromDate st \<and> fromDate st \<noteq> []"
  by (auto simp: searchFilters_def)

lemma searchFilters_Lte:
  "Lte c v \<in> set (searchFilters st) \<longleftrightarrow> c = ''date'' \<and> v = toDate st \<and> toDate st \<noteq> []"
  by (auto simp: searchFilters_def)

lemma searchFilters_Eq:
  "Eq c v \<in> set (searchFilters st)
     \<longleftrightarrow> c = ''category'' \<and> v = searchCategory st \<and> searchCategory st \<noteq> []"
  by (auto simp: searchFilters_def)

lemma searchFilters_EqId: "EqId c i \<notin> set (searchFilters st)"
  by (auto simp: searchFilters_def)

lemma searchFilters_distinct: "distinct (searchFilters st)"
  by (auto simp: searchFilters_def)

text \<open>
  Claim C6. A search issues one request: a select on the transactions, ordered by
  date descending, without a limit, whose filters are a lower bound \<open>date \<ge> fromDate\<close>
  exactly when \<open>fromDate\<close> is not empty, an upper bound \<open>date \<le> toDate\<close> exactly when
  \<open>toDate\<close> is not empty, an equality on the category exactly when \<open>searchCategory\<close> is
  not empty, and nothing else; with the three fields empty there is no filter. The
  transaction collection is not touched. When the request succeeds its rows become
  the search result; when it fails the search result is what it was.
\<close>

theorem search_builds_query:
  "(\<exists>fs. calls (handleSearch res st) = calls st @ [Select ''transactions'' fs ''date'' False None]
       \<and> distinct fs
       \<and> (\<forall>c v. Gte c v \<in> set fs \<longleftrightarrow> c = ''date'' \<and> v = fromDate st \<and> fromDate st \<noteq> [])
       \<and> (\<forall>c v. Lte c v \<in> set fs \<longleftrightarrow> c = ''date'' \<and> v = toDate st \<and> toDate st \<noteq> [])
       \<and> (\<forall>c v. Eq c v \<in> set fs
             \<longleftrightarrow> c = ''category'' \<and> v = searchCategory st \<and> searchCategory st \<noteq> [])
       \<and> (\<forall>c i. EqId c i \<notin> set fs)
       \<and> (fromDate st = [] \<and> toDate st = [] \<and> searchCategory st = [] \<longrightarrow> fs = []))
   \<and> allTransactions (handleSearch res st) = allTransactions st
   \<and> (\<not> failed res \<longrightarrow> searchResults (handleSearch res st) = dataOf res)
   \<and> (failed res \<longrightarrow> searchResults (handleSearch res st) = searchResults st)"
proof -
  have "calls (handleSearch res st)
      = calls st @ [Select ''transactions'' (searchFilters st) ''date'' False None]"
    by (simp add: handleSearch_def Let_def)
  moreover have "fromDate st = [] \<and> toDate st = [] \<and> searchCategory st = [] \<longrightarrow> searchFilters st = []"
    by (simp add: searchFilters_def)
  moreover have "allTransactions (handleSearch res st) = allTransactions st"
    by (simp add: handleSearch_def Let_def)
  moreover have "\<not> failed res \<longrightarrow> searchResults (handleSearch res st) = dataOf res"
    by (simp add: handleSearch_def Let_def)
  moreover have "failed res \<longrightarrow> searchResults (handleSearch res st) = searchResults st"
    by (simp add: handleSearch_def Let_def)
  ultimately show ?thesis
    using searchFilters_Gte [of _ _ st] searchFilters_Lte [of _ _ st] searchFilters_Eq [of _ _ st]
      searchFilters_EqId [of _ _ st] searchFilters_distinct [of st]
    by blast
qed

theorem search_builds_query_witness:
  "searchResults (handleSearch (Resolved (Some [sampleTransaction 1]) None)
       (sampleApp\<lparr> fromDate := ''2024-01-01'', toDate := ''2024-01-31'',
                   allTransactions := [sampleTransaction 1, sampleTransaction 2] \<rparr>))
     = Some [sampleTransaction 1]
   \<and> allTransactions (handleSearch (Resolved (Some [sampleTransaction 1]) None)
       (sampleApp\<lparr> fromDate := ''2024-01-01'', toDate := ''2024-01-31'',
                   allTransactions := [sampleTransaction 1, sampleTransaction 2] \<rparr>))
     = [sampleTransaction 1, sampleTransaction 2]
   \<and> searchResults (handleSearch (Resolved None (Some ''bad filter''))
       (sampleApp\<lparr> fromDate := ''2024-01-01'', toDate := ''2024-01-31'',
                   allTransactions := [sampleTransaction 1, sampleTransaction 2] \<rparr>))
     = None"
proof -
  let ?s = "sampleApp\<lparr> fromDate := ''2024-01-01'', toDate := ''2024-01-31'',
                        allTransactions := [sampleTransaction 1, sampleTransaction 2] \<rparr>"
  have ok: "\<not> failed (Resolved (Some [sampleTransaction 1]) None)"
    by (simp add: failed_def)
  have ko: "failed (Resolved None (Some ''bad filter'') :: Transaction list response)"
    by (simp add: failed_def)
  have d: "dataOf (Resolved (Some [sampleTransaction 1]) None) = Some [sampleTransaction 1]"
    by (simp add: dataOf_def)
  have n: "searchResults ?s = None"
    by (simp add: sampleApp_def initialApp_def)
  from search_builds_query [of "Resolved (Some [sampleTransaction 1]) None" ?s]
    search_builds_query [of "Resolved None (Some ''bad filter'')" ?s] ok ko
  show ?thesis
    unfolding d n by simp
qed

section \<open>Sort and paginate\<close>

text \<open>
  Claim C8. Asking for a sort on the key that is active in ascending order gives that
  key in descending order; asking for any other key, or for the active key when it is
  in descending order, gives the key asked for in ascending order.
\<close>

theorem requestSort_toggles:
  "(key (sortConfig st) = k \<and> direction (sortConfig st) = Asc
      \<longrightarrow> sortConfig (requestSort k st) = \<lparr> key = k, direction = Desc \<rparr>)
   \<and> (key (sortConfig st) \<noteq> k \<or> direction (sortConfig st) = Desc
      \<longrightarrow> sortConfig (requestSort k st) = \<lparr> key = k, direction = Asc \<rparr>)"
  by (cases "direction (sortConfig st)") (auto simp: requestSort_def)

theorem requestSort_toggles_witness:
  "sortConfig (requestSort K_date sampleApp) = \<lparr> key = K_date, direction = Asc \<rparr>
   \<and> sortConfig (requestSort K_date (requestSort K_date sampleApp))
       = \<lparr> key = K_date, direction = Desc \<rparr>
   \<and> sortConfig (requestSort K_amount (requestSort K_date (requestSort K_date sampleApp)))
       = \<lparr> key = K_amount, direction = Asc \<rparr>"
proof -
  have a: "key (sortConfig sampleApp) \<noteq> K_date \<or> direction (sortConfig sampleApp) = Desc"
    by (simp add: sampleApp_def initialApp_def)
  from requestSort_toggles [of sampleApp K_date] a
  have b: "sortConfig (requestSort K_date sampleApp) = \<lparr> key = K_date, direction = Asc \<rparr>"
    by blast
  then have "key (sortConfig (requestSort K_date sampleApp)) = K_date
      \<and> direction (sortConfig (requestSort K_date sampleApp)) = Asc"
    by simp
  with requestSort_toggles [of "requestSort K_date sampleApp" K_date]
  have c: "sortConfig (requestSort K_date (requestSort K_date sampleApp))
      = \<lparr> key = K_date, direction = Desc \<rparr>"
    by blast
  then have "key (sortConfig (requestSort K_date (requestSort K_date sampleApp))) \<noteq> K_amount"
    by simp
  with requestSort_toggles [of "requestSort K_date (requestSort K_date sampleApp)" K_amount]
  have "sortConfig (requestSort K_amount (requestSort K_date (requestSort K_date sampleApp)))
      = \<lparr> key = K_amount, direction = Asc \<rparr>"
    by blast
  with b c show ?thesis by simp
qed

lemma totalPages_div: "totalPages xs = (int (length xs) + 9) div 10"
proof -
  have "totalPages xs = \<lceil>(of_int (int (length xs)) :: rat) / of_int 10\<rceil>"
    by (simp add: totalPages_def itemsPerPage_def)
  also have "\<dots> = - (- int (length xs) div 10)"
    by (rule ceiling_divide_eq_div)
  also have "\<dots> = (int (length xs) + 9) div 10"
    by presburger
  finally show ?thesis .
qed

text \<open>Page \<open>k + 1\<close> holds the ten entries after the first \<open>10 * k\<close>.\<close>

lemma paginatedData_take_drop:
  "paginatedData xs (int (Suc k)) = take 10 (drop (10 * k) xs)"
proof -
  have n: "nat (int k * 10) = 10 * k" by simp
  show ?thesis
  proof (cases "10 * k \<le> length xs")
    case True
    then show ?thesis
      by (auto simp: paginatedData_def slice_def itemsPerPage_def Let_def min_def n)
  next
    case False
    then show ?thesis
      by (auto simp: paginatedData_def slice_def itemsPerPage_def Let_def min_def)
  qed
qed

lemma paginatedData_page:
  assumes "1 \<le> p"
  shows "paginatedData xs p = take 10 (drop (10 * nat (p - 1)) xs)"
proof -
  from assms have "p = int (Suc (nat (p - 1)))" by simp
  then show ?thesis using paginatedData_take_drop [of xs "nat (p - 1)"] by simp
qed

text \<open>No slice is longer than the page size, whatever the page number.\<close>

lemma slice_length: "length (slice start (start + 10) xs) \<le> 10"
proof -
  define len where "len = int (length xs)"
  define k where "k = (if start < 0 then max (len + start) 0 else min start len)"
  define final where
    "final = (if start + 10 < 0 then max (len + (start + 10)) 0 else min (start + 10) len)"
  have "0 \<le> len" by (simp add: len_def)
  then have "final - k \<le> 10"
    unfolding k_def final_def by (auto simp: min_def max_def)
  then have "nat (final - k) \<le> 10" by simp
  moreover have "slice start (start + 10) xs = take (nat (final - k)) (drop (nat k) xs)"
    by (simp add: slice_def Let_def k_def final_def len_def)
  ultimately show ?thesis by simp
qed

lemma paginatedData_length: "length (paginatedData xs p) \<le> 10"
  using slice_length [of "(p - 1) * 10" xs]
  by (simp add: paginatedData_def itemsPerPage_def Let_def)

lemma paginatedData_nonempty:
  assumes "1 \<le> p" "p \<le> totalPages xs"
  shows "paginatedData xs p \<noteq> []"
proof -
  from assms(2) have "10 * p \<le> int (length xs) + 9"
    unfolding totalPages_div by presburger
  with assms(1) have "10 * nat (p - 1) < length xs" by linarith
  then show ?thesis by (simp add: paginatedData_page [OF assms(1)])
qed

lemma paginatedData_full:
  assumes "1 \<le> p" "p < totalPages xs"
  shows "length (paginatedData xs p) = 10"
proof -
  from assms(2) have "10 * p + 10 \<le> int (length xs) + 9"
    unfolding totalPages_div by presburger
  with assms(1) have "10 * nat (p - 1) + 10 \<le> length xs" by linarith
  then show ?thesis by (simp add: paginatedData_page [OF assms(1)])
qed

lemma concat_pages:
  "concat (map (paginatedData xs) [1..int k]) = take (10 * k) xs"
proof (induction k)
  case 0
  then show ?case by simp
next
  case (Suc k)
  have "[1..int (Suc k)] = [1..int k] @ [int (Suc k)]"
    by (simp add: upto_rec2)
  then have "concat (map (paginatedData xs) [1..int (Suc k)])
      = take (10 * k) xs @ take 10 (drop (10 * k) xs)"
    using Suc.IH paginatedData_take_drop [of xs k] by simp
  also have "\<dots> = take (10 * k + 10) xs"
    by (simp add: take_add)
  also have "10 * k + 10 = 10 * Suc k" by simp
  finally show ?case .
qed

lemma concat_all_pages: "concat (map (paginatedData xs) [1..totalPages xs]) = xs"
proof -
  define k where "k = (length xs + 9) div 10"
  have kk: "totalPages xs = int k"
    unfolding totalPages_div k_def by (simp add: zdiv_int)
  have "length xs \<le> 10 * k" unfolding k_def by presburger
  then have "take (10 * k) xs = xs" by simp
  with concat_pages [of xs k] kk show ?thesis by simp
qed

text \<open>The stable insertion sort returns a permutation, and keeps what compares equal.\<close>

lemma mset_insertBy: "mset (insertBy cmp x ys) = add_mset x (mset ys)"
  by (induction ys) auto

lemma mset_stableSort: "mset (stableSort cmp xs) = mset xs"
  unfolding stableSort_def by (induction xs) (auto simp: mset_insertBy)

lemma insertBy_first: "ys = [] \<or> cmp x (hd ys) \<le> 0 \<Longrightarrow> insertBy cmp x ys = x # ys"
  by (cases ys) auto

lemma stableSort_all_equal:
  assumes "\<forall>x \<in> set xs. \<forall>y \<in> set xs. cmp x y \<le> 0"
  shows "stableSort cmp xs = xs"
  using assms
proof (induction xs)
  case Nil
  then show ?case by (simp add: stableSort_def)
next
  case (Cons x xs)
  then have ih: "stableSort cmp xs = xs" by simp
  have "stableSort cmp (x # xs) = insertBy cmp x (stableSort cmp xs)"
    by (simp add: stableSort_def)
  also have "\<dots> = insertBy cmp x xs" by (simp only: ih)
  also have "\<dots> = x # xs"
  proof (rule insertBy_first)
    show "xs = [] \<or> cmp x (hd xs) \<le> 0"
      using Cons.prems by (cases xs) auto
  qed
  finally show ?case .
qed

lemma length_sortedData:
  assumes "mset (sortedData arraySort st) = mset (activeData st)"
  shows "length (sortedData arraySort st) = length (activeData st)"
  using assms by (metis size_mset)

text \<open>
  Claim C7. Let the sort of the host return a permutation of the collection on
  display, of size \<open>N\<close>. Then the number of pages is \<open>N / 10\<close> rounded up; every page
  from 1 on is the slice of ten entries that starts after the pages before it, no
  slice has more than ten entries, every page up to the last is non-empty and every
  page before the last has exactly ten; and the slices of the pages from 1 to the last,
  put one after the other, are the sorted collection itself, which holds every entry
  of the collection exactly as often as the collection does.
\<close>

theorem pagination_partitions:
  assumes "mset (sortedData arraySort st) = mset (activeData st)"
  shows "totalPages (sortedData arraySort st) = (int (length (activeData st)) + 9) div 10
   \<and> concat (map (paginatedData (sortedData arraySort st))
        [1..totalPages (sortedData arraySort st)]) = sortedData arraySort st
   \<and> mset (concat (map (paginatedData (sortedData arraySort st))
        [1..totalPages (sortedData arraySort st)])) = mset (activeData st)
   \<and> (\<forall>p. 1 \<le> p \<longrightarrow>
         paginatedData (sortedData arraySort st) p
           = take 10 (drop (10 * nat (p - 1)) (sortedData arraySort st)))
   \<and> (\<forall>p. length (paginatedData (sortedData arraySort st) p) \<le> 10)
   \<and> (\<forall>p. 1 \<le> p \<and> p \<le> totalPages (sortedData arraySort st) \<longrightarrow>
         paginatedData (sortedData arraySort st) p \<noteq> [])
   \<and> (\<forall>p. 1 \<le> p \<and> p < totalPages (sortedData arraySort st) \<longrightarrow>
         length (paginatedData (sortedData arraySort st) p) = 10)"
proof -
  let ?xs = "sortedData arraySort st"
  have 1: "totalPages ?xs = (int (length (activeData st)) + 9) div 10"
    by (simp add: totalPages_div length_sortedData [OF assms])
  have 2: "concat (map (paginatedData ?xs) [1..totalPages ?xs]) = ?xs"
    by (rule concat_all_pages)
  have 3: "mset (concat (map (paginatedData ?xs) [1..totalPages ?xs])) = mset (activeData st)"
    by (simp only: 2 assms)
  from 1 2 3 show ?thesis
    using paginatedData_page [of _ ?xs] paginatedData_length [of ?xs]
      paginatedData_nonempty [of _ ?xs] paginatedData_full [of _ ?xs]
    by blast
qed

theorem pagination_partitions_witness:
  "totalPages (sortedData stableSort (sampleApp\<lparr> allTransactions := elevenTransactions \<rparr>)) = 2
   \<and> concat (map (paginatedData
                    (sortedData stableSort (sampleApp\<lparr> allTransactions := elevenTransactions \<rparr>)))
        [1..2])
      = sortedData stableSort (sampleApp\<lparr> allTransactions := elevenTransactions \<rparr>)
   \<and> length (paginatedData
        (sortedData stableSort (sampleApp\<lparr> allTransactions := elevenTransactions \<rparr>)) 1) = 10
   \<and> paginatedData
        (sortedData stableSort (sampleApp\<lparr> allTransactions := elevenTransactions \<rparr>)) 2 \<noteq> []"
proof -
  let ?s = "sampleApp\<lparr> allTransactions := elevenTransactions \<rparr>"
  let ?xs = "sortedData stableSort ?s"
  have h: "mset ?xs = mset (activeData ?s)"
    by (simp add: sortedData_def mset_stableSort)
  have "activeData ?s = elevenTransactions"
    by (simp add: activeData_def sampleApp_def initialApp_def)
  then have len: "length (activeData ?s) = 11"
    by (simp add: elevenTransactions_def)
  note pp = pagination_partitions [OF h]
  from pp len have t: "totalPages ?xs = 2"
    by simp
  from pp have c: "concat (map (paginatedData ?xs) [1..totalPages ?xs]) = ?xs"
    by blast
  from pp have f: "\<forall>p. 1 \<le> p \<and> p < totalPages ?xs \<longrightarrow> length (paginatedData ?xs p) = 10"
    by blast
  from pp have n: "\<forall>p. 1 \<le> p \<and> p \<le> totalPages ?xs \<longrightarrow> paginatedData ?xs p \<noteq> []"
    by blast
  from f have f1: "length (paginatedData ?xs 1) = 10" unfolding t by simp
  from n have n2: "paginatedData ?xs 2 \<noteq> []" unfolding t by simp
  from t c [unfolded t] f1 n2 show ?thesis by blast
qed

text \<open>A search that succeeds puts the page back to 1, and so does an insert that succeeds.\<close>

lemma handleSearch_page: "\<not> failed res \<Longrightarrow> currentPage (handleSearch res st) = 1"
  by (simp add: handleSearch_def Let_def)

lemma handleAdd_page:
  assumes "amount st \<noteq> []" "\<not> isSubmitting st" "\<not> failed ires"
    and "rejection c1 = None" "rejection c2 = None" "rejection c3 = None"
  shows "currentPage (handleAddTransaction today env ires c1 c2 c3 rs st) = 1"
  using assms
  by (simp add: handleAddTransaction_def Let_def lookupInsert_def addSucceeded_page)

text \<open>
  The scenario of claim C3 for any sort of the host that keeps the length of the
  array: after the load and the click the page is 2 of 2; after the delete ten
  transactions are left, the number of pages is 1, the page is still 2 and its slice
  is empty.
\<close>

lemma delete_page_any_sort:
  fixes arraySort :: arraySort
  assumes len: "\<And>cmp xs. length (arraySort cmp xs) = length xs"
  defines "s2 \<equiv> nextPage arraySort (fetchData sampleEnv (okLoad elevenTransactions) sampleApp)"
  defines "s3 \<equiv> handleDeleteTransaction True (Resolved None None) (Some 11) s2"
  shows "currentPage s2 = 2"
    and "totalPages (sortedData arraySort s2) = 2"
    and "length (allTransactions s3) = 10"
    and "totalPages (sortedData arraySort s3) = 1"
    and "currentPage s3 = 2"
    and "paginatedData (sortedData arraySort s3) (currentPage s3) = []"
proof -
  define s1 where "s1 = fetchData sampleEnv (okLoad elevenTransactions) sampleApp"
  have ls: "length (sortedData arraySort s) = length (activeData s)" for s
    by (simp add: sortedData_def len)
  have s1: "allTransactions s1 = elevenTransactions" "activeTab s1 = InputTab" "currentPage s1 = 1"
    unfolding s1_def fetchData_ok [OF configIncomplete_sampleEnv]
    by (simp_all add: sampleApp_def initialApp_def)
  have l1: "length (sortedData arraySort s1) = 11"
    by (simp add: ls activeData_def s1 elevenTransactions_def)
  have t1: "totalPages (sortedData arraySort s1) = 2"
    by (simp add: totalPages_div l1)
  have s2: "allTransactions s2 = elevenTransactions" "activeTab s2 = InputTab" "currentPage s2 = 2"
    unfolding s2_def s1_def [symmetric] nextPage_def by (simp_all add: s1 t1)
  have l2: "length (sortedData arraySort s2) = 11"
    by (simp add: ls activeData_def s2 elevenTransactions_def)
  have s3: "allTransactions s3 = filter (\<lambda>t. tx_id t \<noteq> Some 11) elevenTransactions"
    "activeTab s3 = InputTab" "currentPage s3 = 2"
    unfolding s3_def handleDeleteTransaction_def
    by (simp_all add: Let_def failed_def s2)
  show a3: "length (allTransactions s3) = 10"
    unfolding s3(1) by (simp add: elevenTransactions_def sampleTransaction_def)
  have l3: "length (sortedData arraySort s3) = 10"
    by (simp add: ls activeData_def s3(2) a3)
  show "currentPage s2 = 2" by (rule s2(3))
  show "totalPages (sortedData arraySort s2) = 2" by (simp add: totalPages_div l2)
  show "totalPages (sortedData arraySort s3) = 1" by (simp add: totalPages_div l3)
  show "currentPage s3 = 2" by (rule s3(3))
  show "paginatedData (sortedData arraySort s3) (currentPage s3) = []"
    unfolding s3(3) by (simp add: paginatedData_def slice_def itemsPerPage_def Let_def l3)
qed

text \<open>
  Claim C3 at a state the user can reach: eleven transactions are loaded, the user goes
  to page 2 and deletes the only record on it. After the load and the click the page
  is 2 of 2. After the delete ten transactions are left, the number of pages is 1 and
  the page is still 2: the slice on display is empty.
\<close>

theorem delete_leaves_page_out_of_range:
  "currentPage (nextPage stableSort (fetchData sampleEnv (okLoad elevenTransactions) sampleApp)) = 2
   \<and> totalPages (sortedData stableSort
        (nextPage stableSort (fetchData sampleEnv (okLoad elevenTransactions) sampleApp))) = 2
   \<and> length (allTransactions (handleDeleteTransaction True (Resolved None None) (Some 11)
        (nextPage stableSort (fetchData sampleEnv (okLoad elevenTransactions) sampleApp)))) = 10
   \<and> totalPages (sortedData stableSort (handleDeleteTransaction True (Resolved None None) (Some 11)
        (nextPage stableSort (fetchData sampleEnv (okLoad elevenTransactions) sampleApp)))) = 1
   \<and> currentPage (handleDeleteTransaction True (Resolved None None) (Some 11)
        (nextPage stableSort (fetchData sampleEnv (okLoad elevenTransactions) sampleApp))) = 2
   \<and> paginatedData
        (sortedData stableSort (handleDeleteTransaction True (Resolved None None) (Some 11)
           (nextPage stableSort (fetchData sampleEnv (okLoad elevenTransactions) sampleApp))))
        (currentPage (handleDeleteTransaction True (Resolved None None) (Some 11)
           (nextPage stableSort (fetchData sampleEnv (okLoad elevenTransactions) sampleApp)))) = []"
proof -
  have len: "length (stableSort cmp xs) = length xs"
    for cmp :: "Transaction \<Rightarrow> Transaction \<Rightarrow> int" and xs
    using mset_stableSort [of cmp xs] by (metis size_mset)
  note r = delete_page_any_sort [of stableSort, OF len]
  from r(1) r(2) r(3) r(4) r(5) r(6) show ?thesis by blast
qed

section \<open>CSV export\<close>

lemma isDigit_digitChar: "isDigit (digitChar d)"
proof -
  have "nat (d mod 10) < length ''0123456789''" by simp
  then have "''0123456789'' ! nat (d mod 10) \<in> set ''0123456789''" by (rule nth_mem)
  then show ?thesis by (simp only: isDigit_def digitChar_def)
qed

lemma decimal_digits: "list_all isDigit (decimal n)"
proof (induction n rule: decimal.induct)
  case (1 n)
  show ?case
  proof (cases "n < 10")
    case True
    then show ?thesis by (subst decimal.simps) (simp add: isDigit_digitChar)
  next
    case False
    with 1 show ?thesis by (subst decimal.simps) (simp add: isDigit_digitChar)
  qed
qed

lemma decimal_nonempty: "decimal n \<noteq> []"
  by (subst decimal.simps) simp

lemma isDigit_not_minus: "isDigit c \<Longrightarrow> c \<noteq> CHR ''-''"
  by (auto simp: isDigit_def)

lemma isDigit_not_point: "isDigit c \<Longrightarrow> c \<noteq> CHR ''.''"
  by (auto simp: isDigit_def)

lemma not_isDigit_plus: "\<not> isDigit CHR ''+''"
  by (simp add: isDigit_def)

text \<open>Digits, a point and two digits, with or without a sign, have two decimal places.\<close>

lemma twoDecimals_body:
  assumes "a \<noteq> []" "list_all isDigit a" "isDigit d1" "isDigit d2"
  shows "twoDecimals (a @ ''.'' @ [d1, d2])" and "twoDecimals (''-'' @ a @ ''.'' @ [d1, d2])"
proof -
  let ?b = "a @ ''.'' @ [d1, d2]"
  have r: "rev ?b = d2 # d1 # CHR ''.'' # rev a" by simp
  have ra: "rev a \<noteq> []" "list_all isDigit (rev a)"
    using assms(1,2) by (simp_all add: list_all_iff)
  from assms(1) obtain c r where a: "a = c # r" by (cases a) auto
  with assms(2) have "c \<noteq> CHR ''-''" by (simp add: isDigit_not_minus)
  with a have b1: "(case ?b of [] \<Rightarrow> [] | c # r \<Rightarrow> if c = CHR ''-'' then r else ?b) = ?b"
    by simp
  show "twoDecimals ?b"
    unfolding twoDecimals_def Let_def b1 r using ra assms(3,4) by simp
  have b2: "(case ''-'' @ ?b of [] \<Rightarrow> [] | c # r \<Rightarrow> if c = CHR ''-'' then r else ''-'' @ ?b) = ?b"
    by simp
  show "twoDecimals (''-'' @ ?b)"
    unfolding twoDecimals_def Let_def b2 r using ra assms(3,4) by simp
qed

lemma length_two: "length b = 2 \<Longrightarrow> \<exists>d1 d2. b = [d1, d2]"
  by (auto simp: length_Suc_conv numeral_2_eq_2)

lemma split_last_two:
  assumes "3 \<le> length m" "list_all isDigit m"
  shows "\<exists>a d1 d2. take (length m - 2) m @ ''.'' @ drop (length m - 2) m = a @ ''.'' @ [d1, d2]
           \<and> a \<noteq> [] \<and> list_all isDigit a \<and> isDigit d1 \<and> isDigit d2"
proof -
  let ?a = "take (length m - 2) m" and ?b = "drop (length m - 2) m"
  have "length ?b = 2" using assms(1) by simp
  then obtain d1 d2 where b: "?b = [d1, d2]" using length_two by blast
  have "list_all isDigit ?b" using assms(2)
    by (auto simp: list_all_iff dest: in_set_dropD)
  with b have d: "isDigit d1" "isDigit d2" by simp_all
  have "list_all isDigit ?a" using assms(2)
    by (auto simp: list_all_iff dest: in_set_takeD)
  moreover have "?a \<noteq> []" using assms(1) by auto
  ultimately show ?thesis using b d by blast
qed

text \<open>In its fixed range \<open>toFixed\<close> with two fraction digits prints two decimal places.\<close>

lemma toFixed_two_decimals:
  assumes "fixedRange x"
  shows "twoDecimals (toFixed 2 x)"
proof -
  from assms obtain q where x: "x = Fin q" and q: "\<bar>q\<bar> < 10 ^ 21"
    by (cases x) (auto simp: fixedRange_def)
  define n where "n = \<lfloor>\<bar>q\<bar> * 10 ^ 2 + 1 / 2\<rfloor>"
  define m where "m = (if length (decimal n) \<le> 2
                       then replicate (2 + 1 - length (decimal n)) CHR ''0'' @ decimal n
                       else decimal n)"
  have zero: "isDigit CHR ''0''" by (simp add: isDigit_def)
  have md: "list_all isDigit m"
    unfolding m_def using decimal_digits [of n] zero by (simp add: list_all_iff)
  have ml: "3 \<le> length m"
    unfolding m_def by auto
  from split_last_two [OF ml md] obtain a d1 d2 where
    s: "take (length m - 2) m @ ''.'' @ drop (length m - 2) m = a @ ''.'' @ [d1, d2]"
    and a: "a \<noteq> []" "list_all isDigit a" "isDigit d1" "isDigit d2" by blast
  have nq: "\<not> 10 ^ 21 \<le> \<bar>q\<bar>" using q by simp
  have tf: "toFixed 2 x
      = (if q < 0 then ''-'' else []) @ take (length m - 2) m @ ''.'' @ drop (length m - 2) m"
    unfolding x toFixed_def jsnum.case Let_def if_not_P [OF nq] m_def n_def by simp
  show ?thesis
  proof (cases "q < 0")
    case True
    with tf s have "toFixed 2 x = ''-'' @ a @ ''.'' @ [d1, d2]" by simp
    with twoDecimals_body(2) [OF a] show ?thesis by simp
  next
    case False
    with tf s have "toFixed 2 x = a @ ''.'' @ [d1, d2]" by simp
    with twoDecimals_body(1) [OF a] show ?thesis by simp
  qed
qed

text \<open>A text that ends with \<^verbatim>\<open>e+\<close> and digits does not have two decimal places.\<close>

lemma exponent_not_twoDecimals:
  assumes "ds \<noteq> []" "list_all isDigit ds"
  shows "\<not> twoDecimals (pre @ ''e+'' @ ds)"
proof -
  let ?str = "pre @ ''e+'' @ ds"
  have "\<exists>pre'. (case ?str of [] \<Rightarrow> [] | c # r \<Rightarrow> if c = CHR ''-'' then r else ?str)
      = pre' @ ''e+'' @ ds"
  proof (cases pre)
    case Nil
    then have "(case ?str of [] \<Rightarrow> [] | c # r \<Rightarrow> if c = CHR ''-'' then r else ?str)
        = [] @ ''e+'' @ ds" by simp
    then show ?thesis by blast
  next
    case (Cons c r)
    show ?thesis
    proof (cases "c = CHR ''-''")
      case True
      with Cons have "(case ?str of [] \<Rightarrow> [] | c # r \<Rightarrow> if c = CHR ''-'' then r else ?str)
          = r @ ''e+'' @ ds" by simp
      then show ?thesis by blast
    next
      case False
      with Cons have "(case ?str of [] \<Rightarrow> [] | c # r \<Rightarrow> if c = CHR ''-'' then r else ?str)
          = pre @ ''e+'' @ ds" by simp
      then show ?thesis by blast
    qed
  qed
  then obtain pre' where b:
    "(case ?str of [] \<Rightarrow> [] | c # r \<Rightarrow> if c = CHR ''-'' then r else ?str) = pre' @ ''e+'' @ ds"
    by blast
  have r: "rev (pre' @ ''e+'' @ ds) = rev ds @ CHR ''+'' # CHR ''e'' # rev pre'" by simp
  from assms(1) obtain c1 r1 where r1: "rev ds = c1 # r1" by (cases "rev ds") auto
  have dig: "\<forall>c \<in> set (rev ds). isDigit c" using assms(2) by (simp add: list_all_iff)
  show ?thesis
  proof (cases r1)
    case Nil
    with r1 show ?thesis
      unfolding twoDecimals_def Let_def b r by (simp add: not_isDigit_plus)
  next
    case (Cons c2 r2)
    note c2 = this
    show ?thesis
    proof (cases r2)
      case Nil
      with r1 c2 show ?thesis
        unfolding twoDecimals_def Let_def b r by simp
    next
      case (Cons c3 r3)
      with r1 c2 dig have "isDigit c3" by simp
      then have "c3 \<noteq> CHR ''.''" by (rule isDigit_not_point)
      with r1 c2 Cons show ?thesis
        unfolding twoDecimals_def Let_def b r by simp
    qed
  qed
qed

lemma exponentText_shape:
  "\<exists>pre ds. exponentText n k s = pre @ ''e+'' @ ds \<and> ds \<noteq> [] \<and> list_all isDigit ds"
proof -
  obtain n' ds0 where c: "(if s = 10 ^ k then (Suc n, ''1'') else (n, decimal s)) = (n', ds0)"
    by (cases "if s = 10 ^ k then (Suc n, ''1'') else (n, decimal s)") blast
  have "exponentText n k s
      = (case ds0 of [] \<Rightarrow> [] | c # r \<Rightarrow> if r = [] then [c] else c # CHR ''.'' # r)
        @ ''e+'' @ decimal (int n' - 1)"
    unfolding exponentText_def Let_def c by simp
  with decimal_nonempty [of "int n' - 1"] decimal_digits [of "int n' - 1"] show ?thesis
    by blast
qed

lemma numberToString_shape:
  "\<exists>pre ds. numberToString a = pre @ ''e+'' @ ds \<and> ds \<noteq> [] \<and> list_all isDigit ds"
proof -
  have "\<exists>n k s. numberToString a = exponentText n k s"
    unfolding numberToString_def Let_def by (auto split: prod.splits)
  then show ?thesis using exponentText_shape by metis
qed

text \<open>Out of its fixed range \<open>toFixed\<close> prints a finite number in exponent notation.\<close>

lemma toFixed_exponent:
  assumes "10 ^ 21 \<le> \<bar>q\<bar>"
  shows "\<exists>pre ds. toFixed 2 (Fin q) = pre @ ''e+'' @ ds \<and> ds \<noteq> [] \<and> list_all isDigit ds"
proof -
  from numberToString_shape [of "\<bar>q\<bar>"] obtain pre ds where
    n: "numberToString \<bar>q\<bar> = pre @ ''e+'' @ ds" and d: "ds \<noteq> []" "list_all isDigit ds"
    by blast
  from assms have "toFixed 2 (Fin q) = (if q < 0 then ''-'' else []) @ numberToString \<bar>q\<bar>"
    by (simp add: toFixed_def Let_def)
  with n have "toFixed 2 (Fin q) = ((if q < 0 then ''-'' else []) @ pre) @ ''e+'' @ ds"
    by simp
  with d show ?thesis by blast
qed

text \<open>\<open>toFixed\<close> prints two decimal places in its fixed range and nowhere else.\<close>

lemma toFixed_two_decimals_iff: "twoDecimals (toFixed 2 x) \<longleftrightarrow> fixedRange x"
proof (cases "fixedRange x")
  case True
  then show ?thesis by (simp add: toFixed_two_decimals)
next
  case False
  have "\<not> twoDecimals (toFixed 2 x)"
  proof (cases x)
    case NaN
    then show ?thesis by (simp add: toFixed_def twoDecimals_def isDigit_def)
  next
    case PosInf
    then show ?thesis by (simp add: toFixed_def twoDecimals_def isDigit_def)
  next
    case NegInf
    then show ?thesis by (simp add: toFixed_def twoDecimals_def isDigit_def)
  next
    case (Fin q)
    with False have "10 ^ 21 \<le> \<bar>q\<bar>" by (simp add: fixedRange_def)
    from toFixed_exponent [OF this] obtain pre ds where
      "toFixed 2 (Fin q) = pre @ ''e+'' @ ds" "ds \<noteq> []" "list_all isDigit ds" by blast
    with exponent_not_twoDecimals [of ds pre] Fin show ?thesis by simp
  qed
  with False show ?thesis by simp
qed

lemma join_Cons: "join sep (x # xs) = x @ concat (map (\<lambda>y. sep @ y) xs)"
  by (induction xs arbitrary: x) auto

lemma csvRow_line:
  "join '','' (map (\<lambda>val. CHR 0x22 # val @ [CHR 0x22]) (csvRow t)) = spec_csvLine t"
  by (simp add: csvRow_def spec_csvLine_def quoted_def)

lemma csv_content:
  "join [CHR 0x0A] (join '','' csvHeaders
       # map (\<lambda>row. join '','' (map (\<lambda>val. [CHR 0x22] @ val @ [CHR 0x22]) row))
           (map csvRow rs))
     = spec_csvText rs"
proof -
  have h: "join '','' csvHeaders = ''Date,Category,Item,Vendor,Amount,Account,Paid By''"
    by (simp add: csvHeaders_def)
  show ?thesis
    unfolding join_Cons h spec_csvText_def by (simp add: comp_def csvRow_line)
qed

lemma export_content:
  assumes "searchResults st = Some rs" "rs \<noteq> []"
  shows "exportToCSV today st
      = Some \<lparr> filename = ''consumption_records_'' @ today @ ''.csv'',
               mimeType = ''text/csv;charset=utf-8;'',
               content = spec_csvText rs \<rparr>"
proof -
  have "exportToCSV today st
      = Some \<lparr> filename = ''consumption_records_'' @ today @ ''.csv'',
               mimeType = ''text/csv;charset=utf-8;'',
               content = join [CHR 0x0A] (join '','' csvHeaders
       # map (\<lambda>row. join '','' (map (\<lambda>val. [CHR 0x22] @ val @ [CHR 0x22]) row))
           (map csvRow rs)) \<rparr>"
    using assms by (simp only: exportToCSV_def Let_def option.case length_0_conv if_False)
  then show ?thesis by (simp only: csv_content)
qed

text \<open>
  Claim C9, as the code has it. Without a search result, or with an empty one, nothing
  is exported. Otherwise the file holds the header row
  \<^verbatim>\<open>Date,Category,Item,Vendor,Amount,Account,Paid By\<close> and, after it, one row for each
  transaction of the search result in its order, each field in double quotes, the
  fields separated by commas and the rows by newlines. The amount is printed by
  \<^verbatim>\<open>toFixed(2)\<close>: with exactly two decimal places if and only if it is finite and of
  magnitude below \<open>10^21\<close>; a finite amount of magnitude \<open>10^21\<close> or more is printed in
  exponent notation, a text that ends with \<^verbatim>\<open>e+\<close> and the digits of the exponent.
\<close>

theorem export_csv_text:
  "(searchResults st = None \<or> searchResults st = Some [] \<longrightarrow> exportToCSV today st = None)
   \<and> (\<forall>rs. searchResults st = Some rs \<and> rs \<noteq> [] \<longrightarrow>
        exportToCSV today st
          = Some \<lparr> filename = ''consumption_records_'' @ today @ ''.csv'',
                   mimeType = ''text/csv;charset=utf-8;'',
                   content = spec_csvText rs \<rparr>
        \<and> (\<forall>t \<in> set rs. twoDecimals (toFixed 2 (tx_amount t)) \<longleftrightarrow> fixedRange (tx_amount t))
        \<and> (\<forall>t \<in> set rs. \<forall>q. tx_amount t = Fin q \<and> 10 ^ 21 \<le> \<bar>q\<bar> \<longrightarrow>
              (\<exists>pre ds. toFixed 2 (tx_amount t) = pre @ ''e+'' @ ds
                 \<and> ds \<noteq> [] \<and> list_all isDigit ds)))"
proof -
  have "searchResults st = None \<or> searchResults st = Some [] \<longrightarrow> exportToCSV today st = None"
    by (auto simp: exportToCSV_def)
  moreover have "\<forall>t q. tx_amount t = Fin q \<and> 10 ^ 21 \<le> \<bar>q\<bar> \<longrightarrow>
      (\<exists>pre ds. toFixed 2 (tx_amount t) = pre @ ''e+'' @ ds \<and> ds \<noteq> [] \<and> list_all isDigit ds)"
    using toFixed_exponent by simp
  ultimately show ?thesis
    using export_content [of st _ today] toFixed_two_decimals_iff
    by blast
qed

theorem export_csv_text_witness:
  "exportToCSV ''2024-01-15'' sampleApp = None
   \<and> content (the (exportToCSV ''2024-01-15''
         (sampleApp\<lparr> searchResults := Some [sampleTransaction 2, sampleTransaction 1] \<rparr>)))
     = ''Date,Category,Item,Vendor,Amount,Account,Paid By''
       @ [CHR 0x0A] @ quoted ''2024-01-15'' @ '','' @ quoted ''Food'' @ '','' @ quoted ''Coffee''
       @ '','' @ quoted ''Cafe X'' @ '','' @ quoted ''4.50'' @ '','' @ quoted ''Checking''
       @ '','' @ quoted ''Alice''
       @ [CHR 0x0A] @ quoted ''2024-01-15'' @ '','' @ quoted ''Food'' @ '','' @ quoted ''Coffee''
       @ '','' @ quoted ''Cafe X'' @ '','' @ quoted ''4.50'' @ '','' @ quoted ''Checking''
       @ '','' @ quoted ''Alice''
   \<and> twoDecimals (toFixed 2 (tx_amount (sampleTransaction 2)))"
proof -
  let ?rs = "[sampleTransaction 2, sampleTransaction 1]"
  let ?s = "sampleApp\<lparr> searchResults := Some ?rs \<rparr>"
  have n: "searchResults sampleApp = None \<or> searchResults sampleApp = Some []"
    by (simp add: sampleApp_def initialApp_def)
  have r: "searchResults ?s = Some ?rs \<and> ?rs \<noteq> []"
    by simp
  have f: "fixedRange (tx_amount (sampleTransaction 2))"
    by (simp add: fixedRange_def sampleTransaction_def)
  have m: "sampleTransaction 2 \<in> set ?rs"
    by simp
  have x: "toFixed 2 (Fin (9 / 2)) = ''4.50''"
    by code_simp
  have l: "spec_csvLine (sampleTransaction i)
      = quoted ''2024-01-15'' @ '','' @ quoted ''Food'' @ '','' @ quoted ''Coffee''
       @ '','' @ quoted ''Cafe X'' @ '','' @ quoted ''4.50'' @ '','' @ quoted ''Checking''
       @ '','' @ quoted ''Alice''" for i
    by (simp add: spec_csvLine_def sampleTransaction_def x)
  from export_csv_text [of sampleApp "''2024-01-15''"] n
  have a: "exportToCSV ''2024-01-15'' sampleApp = None"
    by blast
  from export_csv_text [of ?s "''2024-01-15''"] r
  have b: "exportToCSV ''2024-01-15'' ?s
          = Some \<lparr> filename = ''consumption_records_'' @ ''2024-01-15'' @ ''.csv'',
                   mimeType = ''text/csv;charset=utf-8;'',
                   content = spec_csvText ?rs \<rparr>"
    and c: "\<forall>t \<in> set ?rs. twoDecimals (toFixed 2 (tx_amount t)) \<longleftrightarrow> fixedRange (tx_amount t)"
    by blast+
  from c m f have t: "twoDecimals (toFixed 2 (tx_amount (sampleTransaction 2)))"
    by blast
  have "content (the (exportToCSV ''2024-01-15'' ?s)) = spec_csvText ?rs"
    unfolding b by simp
  also have "\<dots> = ''Date,Category,Item,Vendor,Amount,Account,Paid By''
       @ [CHR 0x0A] @ quoted ''2024-01-15'' @ '','' @ quoted ''Food'' @ '','' @ quoted ''Coffee''
       @ '','' @ quoted ''Cafe X'' @ '','' @ quoted ''4.50'' @ '','' @ quoted ''Checking''
       @ '','' @ quoted ''Alice''
       @ [CHR 0x0A] @ quoted ''2024-01-15'' @ '','' @ quoted ''Food'' @ '','' @ quoted ''Coffee''
       @ '','' @ quoted ''Cafe X'' @ '','' @ quoted ''4.50'' @ '','' @ quoted ''Checking''
       @ '','' @ quoted ''Alice''"
    unfolding spec_csvText_def list.map concat.simps l by simp
  finally show ?thesis using a t by blast
qed

text \<open>
  The claim as the specification states it fails at an amount the program can hold:
  \<^verbatim>\<open>1e21\<close> passes the number control of the form and parses to \<open>10^21\<close>, and a search
  result that carries this amount is exported with the amount \<^verbatim>\<open>1e+21\<close>, which does
  not have two decimal places.
\<close>

theorem export_amount_counterexample:
  "parseFloat (numberInputValue ''1e21'') = Fin (10 ^ 21)
   \<and> content (the (exportToCSV ''2024-01-15''
        (handleSearch
           (Resolved (Some [(sampleTransaction 1)\<lparr> tx_amount := Fin (10 ^ 21) \<rparr>]) None)
           sampleApp)))
     = ''Date,Category,Item,Vendor,Amount,Account,Paid By''
       @ [CHR 0x0A] @ quoted ''2024-01-15'' @ '','' @ quoted ''Food'' @ '','' @ quoted ''Coffee''
       @ '','' @ quoted ''Cafe X'' @ '','' @ quoted ''1e+21'' @ '','' @ quoted ''Checking''
       @ '','' @ quoted ''Alice''
   \<and> \<not> twoDecimals ''1e+21''"
proof -
  let ?rs = "[(sampleTransaction 1)\<lparr> tx_amount := Fin (10 ^ 21) \<rparr>]"
  let ?s = "handleSearch (Resolved (Some ?rs) None) sampleApp"
  have p: "parseFloat ''1e21'' = Fin 1000000000000000000000"
    by code_simp
  have v: "numberInputValue ''1e21'' = ''1e21''"
    by (simp add: numberInputValue_def validFloatingPointNumber_def validExponent_def
        isDigit_def p isFinite_def)
  have x: "toFixed 2 (Fin 1000000000000000000000) = ''1e+21''"
    by code_simp
  have sr: "searchResults ?s = Some ?rs"
    by (simp add: handleSearch_def Let_def failed_def dataOf_def)
  have e: "exportToCSV ''2024-01-15'' ?s
      = Some \<lparr> filename = ''consumption_records_'' @ ''2024-01-15'' @ ''.csv'',
               mimeType = ''text/csv;charset=utf-8;'',
               content = spec_csvText ?rs \<rparr>"
    using sr by (rule export_content) simp
  have l: "spec_csvLine ((sampleTransaction 1)\<lparr> tx_amount := Fin (10 ^ 21) \<rparr>)
      = quoted ''2024-01-15'' @ '','' @ quoted ''Food'' @ '','' @ quoted ''Coffee''
       @ '','' @ quoted ''Cafe X'' @ '','' @ quoted ''1e+21'' @ '','' @ quoted ''Checking''
       @ '','' @ quoted ''Alice''"
    unfolding spec_csvLine_def by (simp add: sampleTransaction_def x)
  have c: "content (the (exportToCSV ''2024-01-15'' ?s)) = spec_csvText ?rs"
    unfolding e by simp
  have n: "\<not> twoDecimals ''1e+21''"
    by (simp add: twoDecimals_def isDigit_def)
  have pv: "parseFloat (numberInputValue ''1e21'') = Fin (10 ^ 21)"
    unfolding v p by simp
  show ?thesis
    unfolding c spec_csvText_def list.map concat.simps l using n pv by simp
qed

end
